theory Spec2Isabelle
  imports Main "HOL-Library.Word" "HOL-Library.Signed_Division"
begin

unbundle bit_operations_syntax

section \<open>R-TCP on BBRv1 (\<^verbatim>\<open>rtcp_bbr.c\<close>): data model\<close>

text \<open>
  Machine integers are words of the width the C types have on a 64-bit Linux 5.4 kernel:
  \<^verbatim>\<open>u8\<close>, \<^verbatim>\<open>u16\<close>, \<^verbatim>\<open>u32\<close>, \<^verbatim>\<open>u64\<close>; \<^verbatim>\<open>int\<close> and \<^verbatim>\<open>s32\<close> are 32-bit words read
  with \<open>sint\<close> where the C code reads them signed; \<^verbatim>\<open>long\<close> and \<^verbatim>\<open>unsigned long\<close> are 64-bit.
  Bit-fields are words of the declared width, one-bit fields are \<open>bool\<close>.
\<close>

type_synonym u8 = "8 word"
type_synonym u16 = "16 word"
type_synonym u32 = "32 word"
type_synonym u64 = "64 word"
type_synonym cint = "32 word"
type_synonym clong = "64 word"

datatype error = NullDeref | DivByZero

datatype bbr_mode = BBR_STARTUP | BBR_DRAIN | BBR_PROBE_BW | BBR_PROBE_RTT

definition BW_SCALE :: nat where "BW_SCALE = 24"
definition BW_UNIT :: cint where "BW_UNIT = push_bit BW_SCALE 1"
definition BBR_SCALE :: nat where "BBR_SCALE = 8"
definition BBR_UNIT :: cint where "BBR_UNIT = push_bit BBR_SCALE 1"
definition BASED_SCALE :: nat where "BASED_SCALE = 8"
definition BASED_UNIT :: cint where "BASED_UNIT = push_bit BASED_SCALE 1"
definition MAX_STR_LEN :: nat where "MAX_STR_LEN = 5000"
definition STORE_INTERVAL :: u32 where "STORE_INTERVAL = 400"
definition USEC_PER_SEC :: clong where "USEC_PER_SEC = 1000000"
definition USEC_PER_MSEC :: clong where "USEC_PER_MSEC = 1000"
definition NSEC_PER_USEC :: clong where "NSEC_PER_USEC = 1000"
definition CYCLE_LEN :: cint where "CYCLE_LEN = 8"
definition TCP_INIT_CWND :: u32 where "TCP_INIT_CWND = 10"

definition TCP_CA_Disorder :: u8 where "TCP_CA_Disorder = 1"
definition TCP_CA_CWR :: u8 where "TCP_CA_CWR = 2"
definition TCP_CA_Recovery :: u8 where "TCP_CA_Recovery = 3"
definition TCP_CA_Loss :: u8 where "TCP_CA_Loss = 4"

text \<open>\<^verbatim>\<open>enum tcp_chrono\<close>: 0 unspec, 1 busy, 2 rwnd-limited, 3 sndbuf-limited.\<close>

definition TCP_CHRONO_RWND_LIMITED :: u8 where "TCP_CHRONO_RWND_LIMITED = 2"

datatype tcp_ca_event =
  CA_EVENT_TX_START | CA_EVENT_CWND_RESTART | CA_EVENT_COMPLETE_CWR
  | CA_EVENT_LOSS | CA_EVENT_ECN_NO_CE | CA_EVENT_ECN_IS_CE

text \<open>The grid of the detector, \<^verbatim>\<open>percent_arr\<close>, and the detector thresholds.\<close>

definition percent_arr_num :: u8 where "percent_arr_num = 9"

definition percent_arr :: "cint list" where
  "percent_arr =
     [BW_UNIT,
      word_of_int (sint (BW_UNIT * 7) sdiv 8), word_of_int (sint (BW_UNIT * 6) sdiv 8),
      word_of_int (sint (BW_UNIT * 5) sdiv 8), word_of_int (sint (BW_UNIT * 4) sdiv 8),
      word_of_int (sint (BW_UNIT * 3) sdiv 8), word_of_int (sint (BW_UNIT * 2) sdiv 8),
      word_of_int (sint (BW_UNIT * 1) sdiv 8), 0]"

definition loss_thresh :: u32 where "loss_thresh = 50"
definition abrupt_decrease_thresh :: u32 where "abrupt_decrease_thresh = 150"

text \<open>
  The module parameters (\<^verbatim>\<open>module_param_named\<close>): plain \<^verbatim>\<open>int\<close>s an operator may change
  at run time, so every function that reads one takes the record.
\<close>

record params =
  probe_interval :: cint
  probe_per :: cint
  optimize_flag :: cint
  high_loss_disclassify :: cint
  monitor_peroid :: cint
  use_goodput :: cint
  exclude_RTO :: cint
  exclude_rwnd :: cint
  exclude_applimited :: cint
  enable_printk :: cint

definition default_params :: params where
  "default_params =
     \<lparr>probe_interval = 20, probe_per = 24, optimize_flag = 1, high_loss_disclassify = 2,
      monitor_peroid = 3, use_goodput = 1, exclude_RTO = 0, exclude_rwnd = 0,
      exclude_applimited = 0, enable_printk = 1\<rparr>"

text \<open>
  What the module reads from the kernel around it and cannot compute itself: the jiffies
  clock, the tick rate and its conversions (they depend on the kernel configuration), the
  pseudo-random number generator, the size constants \<^verbatim>\<open>SKB_TRUESIZE(1)\<close> and
  \<^verbatim>\<open>MAX_TCP_HEADER\<close>, and whether the two
  \<^verbatim>\<open>kmalloc\<close> calls of \<^verbatim>\<open>bbr_init\<close> succeed.
\<close>

record kernel =
  tcp_jiffies32 :: u32
  HZ :: cint
  jiffies_to_usecs :: "u32 \<Rightarrow> u32"
  msecs_to_jiffies :: "u32 \<Rightarrow> u64"
  prandom_u32 :: u32
  SKB_TRUESIZE_1 :: u64
  MAX_TCP_HEADER :: cint
  kmalloc_pmodrl_ok :: bool
  kmalloc_buffer_ok :: bool

text \<open>\<^verbatim>\<open>struct rate_sample\<close> of the transport, the fields the module reads.\<close>

record rate_sample =
  rs_prior_delivered :: u32
  rs_delivered :: cint
  rs_interval_us :: clong
  rs_rtt_us :: clong
  rs_losses :: cint
  rs_acked_sacked :: u32
  rs_prior_in_flight :: u32
  rs_is_app_limited :: bool
  rs_is_ack_delayed :: bool

text \<open>
  The socket as the module sees it: the fields of \<^verbatim>\<open>struct sock\<close>, \<^verbatim>\<open>struct tcp_sock\<close> and
  \<^verbatim>\<open>struct inet_connection_sock\<close> that the module reads or writes. \<open>rtt_min\<close> is the value
  of \<^verbatim>\<open>tcp_min_rtt(tp)\<close>.
\<close>

record sock =
  sk_pacing_rate :: u64
  sk_max_pacing_rate :: u64
  sk_pacing_shift :: u8
  sk_pacing_status :: u32
  sk_wmem_alloc :: cint
  icsk_ca_state :: u8
  mss_cache :: u32
  srtt_us :: u32
  rtt_min :: u32
  snd_cwnd :: u32
  snd_cwnd_clamp :: u32
  snd_ssthresh :: u32
  delivered :: u32
  lost :: u32
  snd_una :: u32
  snd_nxt :: u32
  write_seq :: u32
  app_limited :: u32
  packets_out :: u32
  sacked_out :: u32
  lost_out :: u32
  retrans_out :: u32
  tcp_mstamp :: u64
  delivered_mstamp :: u64
  tcp_clock_cache :: u64
  tcp_wstamp_ns :: u64
  bytes_acked :: u64
  chrono_type :: u8

text \<open>
  \<^verbatim>\<open>struct PMODRL\<close>, the detector block. Its fields \<^verbatim>\<open>next_rtt_delivered\<close> and
  \<^verbatim>\<open>round_start\<close> are \<open>pm_next_rtt_delivered\<close> and \<open>pm_round_start\<close> here, since
  \<^verbatim>\<open>struct bbr\<close> has fields of the same names. \<open>buffer\<close> is \<open>None\<close> for a null pointer
  and otherwise the C string it holds.
\<close>

record PMODRL =
  B_arr :: "u64 list"
  R_arr :: "u64 list"
  best_index :: u8
  classify :: u8
  classify_time_us :: u32
  high_loss_flag :: u8
  loss_start_time_us :: u32
  before_loss_delivered :: u32
  before_loss_time_us :: u32
  before_loss_lost :: u32
  bbr_start_us :: u32
  bef_empty_goodput :: u64
  nominator :: u32
  latest_ack_us :: u32
  lastest_ack_loss :: u32
  detected_bytes_acked :: u64
  detected_time :: u32
  disable_flag :: u8
  mem_B :: u64
  mem_R :: u64
  probe_rtt_flag :: u8
  upper_bound :: u8
  round_count :: u32
  round_count_no :: u32
  pm_next_rtt_delivered :: u32
  pm_round_start :: u8
  transfer_start_deliverd :: u32
  transfer_start_lost :: u32
  reset_ltbw_flag :: u8
  buffer :: "string option"
  store_interval :: u32
  acc_rto_dur :: u64
  cycle_mstamp :: u64
  dis_loss_start :: u64
  dis_deliver_start :: u64
  dis_enable_flag :: u8

text \<open>\<^verbatim>\<open>struct minmax\<close> of \<^verbatim>\<open>linux/win_minmax.h\<close>: three samples, each a time and a value.\<close>

type_synonym minmax_sample = "u32 \<times> u32"

record minmax =
  mm_s0 :: minmax_sample
  mm_s1 :: minmax_sample
  mm_s2 :: minmax_sample

text \<open>\<^verbatim>\<open>struct bbr\<close>, the congestion-control block; \<open>pmodrl\<close> is \<open>None\<close> for a null pointer.\<close>

record bbr =
  min_rtt_us :: u32
  min_rtt_stamp :: u32
  probe_rtt_done_stamp :: u32
  bw :: minmax
  rtt_cnt :: u32
  next_rtt_delivered :: u32
  mode :: bbr_mode
  prev_ca_state :: "3 word"
  packet_conservation :: bool
  round_start :: bool
  idle_restart :: bool
  probe_rtt_round_done :: bool
  lt_is_sampling :: bool
  lt_rtt_cnt :: "7 word"
  lt_use_bw :: bool
  lt_bw :: u32
  lt_last_delivered :: u32
  lt_last_stamp :: u32
  lt_last_lost :: u32
  pacing_gain :: "10 word"
  cwnd_gain :: "10 word"
  full_bw_reached :: bool
  full_bw_cnt :: "2 word"
  cycle_idx :: "3 word"
  has_seen_rtt :: bool
  prior_cwnd :: u32
  full_bw :: u32
  ack_epoch_mstamp :: u64
  extra_acked :: "u16 \<times> u16"
  ack_epoch_acked :: "20 word"
  extra_acked_win_rtts :: "5 word"
  extra_acked_win_idx :: bool
  pmodrl :: "PMODRL option"

text \<open>A connection: the socket and its congestion-control block (\<^verbatim>\<open>inet_csk_ca(sk)\<close>).\<close>

record conn =
  sk :: sock
  ca :: bbr

section \<open>Kernel helpers the module calls\<close>

text \<open>
  These are the Linux 5.4 definitions of the macros and inline functions the module uses.
  \<^verbatim>\<open>before(a, b)\<close> is \<^verbatim>\<open>(s32)(a - b) < 0\<close>; \<^verbatim>\<open>after(a, b)\<close> is \<^verbatim>\<open>before(b, a)\<close>.
\<close>

definition before :: "u32 \<Rightarrow> u32 \<Rightarrow> bool" where
  "before seq1 seq2 = ((seq1 - seq2) <s 0)"

definition after :: "u32 \<Rightarrow> u32 \<Rightarrow> bool" where
  "after seq2 seq1 = before seq1 seq2"

text \<open>\<^verbatim>\<open>abs\<close> on a 64-bit and on a 32-bit operand: the operand is read as signed.\<close>

definition abs64 :: "u64 \<Rightarrow> u64" where
  "abs64 x = (if x <s 0 then - x else x)"

definition abs32 :: "u32 \<Rightarrow> u32" where
  "abs32 x = (if x <s 0 then - x else x)"

text \<open>
  \<^verbatim>\<open>div_u64(n, d)\<close> and \<^verbatim>\<open>do_div(n, d)\<close> divide a \<^verbatim>\<open>u64\<close> by a divisor that is converted
  to \<^verbatim>\<open>u32\<close> first; a zero divisor traps.
\<close>

definition div_u64 :: "u64 \<Rightarrow> u32 \<Rightarrow> error + u64" where
  "div_u64 n d = (if d = 0 then Inl DivByZero else Inr (n div ucast d))"

text \<open>\<^verbatim>\<open>tcp_stamp_us_delta(t1, t0)\<close> is \<^verbatim>\<open>max_t(s64, t1 - t0, 0)\<close>, returned as \<^verbatim>\<open>u32\<close>.\<close>

definition tcp_stamp_us_delta :: "u64 \<Rightarrow> u64 \<Rightarrow> u32" where
  "tcp_stamp_us_delta t1 t0 = ucast (if 0 <s t1 - t0 then t1 - t0 else 0)"

definition tcp_packets_in_flight :: "sock \<Rightarrow> u32" where
  "tcp_packets_in_flight tp = packets_out tp - (sacked_out tp + lost_out tp) + retrans_out tp"

text \<open>\<^verbatim>\<open>sk_wmem_alloc_get(sk)\<close> is \<^verbatim>\<open>refcount_read(&sk->sk_wmem_alloc) - 1\<close>, an \<^verbatim>\<open>int\<close>.\<close>

definition sk_wmem_alloc_get :: "sock \<Rightarrow> cint" where
  "sk_wmem_alloc_get s = sk_wmem_alloc s - 1"

text \<open>\<^verbatim>\<open>prandom_u32_max(n)\<close> is \<^verbatim>\<open>(u32)(((u64) prandom_u32() * n) >> 32)\<close>.\<close>

definition prandom_u32_max :: "kernel \<Rightarrow> u32 \<Rightarrow> u32" where
  "prandom_u32_max k ep_ro = ucast (drop_bit 32 ((ucast (prandom_u32 k) :: u64) * ucast ep_ro))"

text \<open>The windowed-max filter of \<^verbatim>\<open>lib/win_minmax.c\<close>.\<close>

definition minmax_get :: "minmax \<Rightarrow> u32" where
  "minmax_get m = snd (mm_s0 m)"

definition minmax_reset :: "minmax \<Rightarrow> u32 \<Rightarrow> u32 \<Rightarrow> minmax" where
  "minmax_reset m t meas = m\<lparr>mm_s0 := (t, meas), mm_s1 := (t, meas), mm_s2 := (t, meas)\<rparr>"

definition minmax_subwin_update :: "minmax \<Rightarrow> u32 \<Rightarrow> minmax_sample \<Rightarrow> minmax" where
  "minmax_subwin_update m win val =
     (let dt = fst val - fst (mm_s0 m) in
      if dt > win then
        (let m1 = m\<lparr>mm_s0 := mm_s1 m, mm_s1 := mm_s2 m, mm_s2 := val\<rparr> in
         if fst val - fst (mm_s0 m1) > win
         then m1\<lparr>mm_s0 := mm_s1 m1, mm_s1 := mm_s2 m1, mm_s2 := val\<rparr>
         else m1)
      else if fst (mm_s1 m) = fst (mm_s0 m) \<and> dt > win div 4 then
        m\<lparr>mm_s2 := val, mm_s1 := val\<rparr>
      else if fst (mm_s2 m) = fst (mm_s1 m) \<and> dt > win div 2 then
        m\<lparr>mm_s2 := val\<rparr>
      else m)"

definition minmax_running_max :: "minmax \<Rightarrow> u32 \<Rightarrow> u32 \<Rightarrow> u32 \<Rightarrow> minmax" where
  "minmax_running_max m win t meas =
     (let val = (t, meas) in
      if meas \<ge> snd (mm_s0 m) \<or> t - fst (mm_s2 m) > win then minmax_reset m t meas
      else
        (let m1 = (if meas \<ge> snd (mm_s1 m) then m\<lparr>mm_s2 := val, mm_s1 := val\<rparr>
                   else if meas \<ge> snd (mm_s2 m) then m\<lparr>mm_s2 := val\<rparr>
                   else m)
         in minmax_subwin_update m1 win val))"

section \<open>BBR constants\<close>

definition bbr_bw_rtts :: cint where "bbr_bw_rtts = CYCLE_LEN + 2"
definition bbr_min_rtt_win_sec :: u32 where "bbr_min_rtt_win_sec = 10"
definition bbr_probe_rtt_mode_ms :: u32 where "bbr_probe_rtt_mode_ms = 200"
definition bbr_min_tso_rate :: cint where "bbr_min_tso_rate = 1200000"
definition bbr_pacing_margin_percent :: cint where "bbr_pacing_margin_percent = 1"
definition bbr_high_gain :: cint where
  "bbr_high_gain = word_of_int (sint (BBR_UNIT * 2885) sdiv 1000) + 1"
definition bbr_drain_gain :: cint where
  "bbr_drain_gain = word_of_int (sint (BBR_UNIT * 1000) sdiv 2885)"
definition bbr_cwnd_gain :: cint where "bbr_cwnd_gain = BBR_UNIT * 2"
definition bbr_pacing_gain :: "cint list" where
  "bbr_pacing_gain =
     [word_of_int (sint (BBR_UNIT * 5) sdiv 4), word_of_int (sint (BBR_UNIT * 3) sdiv 4),
      BBR_UNIT, BBR_UNIT, BBR_UNIT, BBR_UNIT, BBR_UNIT, BBR_UNIT]"
definition bbr_cycle_rand :: u32 where "bbr_cycle_rand = 7"
definition bbr_cwnd_min_target :: u32 where "bbr_cwnd_min_target = 4"
definition bbr_full_bw_thresh :: u32 where
  "bbr_full_bw_thresh = word_of_int (sint (BBR_UNIT * 5) sdiv 4)"
definition bbr_full_bw_cnt :: u32 where "bbr_full_bw_cnt = 3"
definition bbr_lt_intvl_min_rtts :: u32 where "bbr_lt_intvl_min_rtts = 4"
definition bbr_lt_loss_thresh :: u32 where "bbr_lt_loss_thresh = 50"
definition bbr_lt_bw_ratio :: u32 where
  "bbr_lt_bw_ratio = word_of_int (sint BBR_UNIT sdiv 8)"
definition bbr_lt_bw_diff :: u32 where "bbr_lt_bw_diff = 4000 div 8"
definition bbr_lt_bw_max_rtts :: u32 where "bbr_lt_bw_max_rtts = 48"
definition bbr_extra_acked_gain :: cint where "bbr_extra_acked_gain = BBR_UNIT"
definition bbr_extra_acked_win_rtts :: u32 where "bbr_extra_acked_win_rtts = 5"
definition bbr_ack_epoch_acked_reset_thresh :: u32 where
  "bbr_ack_epoch_acked_reset_thresh = push_bit 20 1"
definition bbr_extra_acked_max_us :: u32 where "bbr_extra_acked_max_us = 100 * 1000"

section \<open>Rates and the pacing rate\<close>

definition bbr_full_bw_reached :: "conn \<Rightarrow> bool" where
  "bbr_full_bw_reached c = full_bw_reached (ca c)"

definition bbr_max_bw :: "conn \<Rightarrow> u32" where
  "bbr_max_bw c = minmax_get (bw (ca c))"

definition bbr_bw :: "conn \<Rightarrow> u32" where
  "bbr_bw c = (if lt_use_bw (ca c) then lt_bw (ca c) else bbr_max_bw c)"

definition bbr_extra_acked :: "conn \<Rightarrow> u16" where
  "bbr_extra_acked c = max (fst (extra_acked (ca c))) (snd (extra_acked (ca c)))"

text \<open>
  \<^verbatim>\<open>rate *= gain\<close> multiplies a \<^verbatim>\<open>u64\<close> by an \<^verbatim>\<open>int\<close>: the gain is sign-extended to 64 bits.
\<close>

definition bbr_rate_bytes_per_sec :: "conn \<Rightarrow> u64 \<Rightarrow> cint \<Rightarrow> u64" where
  "bbr_rate_bytes_per_sec c rate gain =
     (let rate = rate * ucast (mss_cache (sk c));
          rate = rate * scast gain;
          rate = drop_bit BBR_SCALE rate;
          rate = rate * (USEC_PER_SEC div 100 * (100 - scast bbr_pacing_margin_percent))
      in drop_bit BW_SCALE rate)"

definition bbr_bw_to_pacing_rate :: "conn \<Rightarrow> u32 \<Rightarrow> cint \<Rightarrow> u64" where
  "bbr_bw_to_pacing_rate c bwv gain =
     (let rate = bbr_rate_bytes_per_sec c (ucast bwv) gain
      in min rate (sk_max_pacing_rate (sk c)))"

text \<open>
  The bandwidth \<^verbatim>\<open>bw\<close> is a \<^verbatim>\<open>u64\<close> that \<^verbatim>\<open>bbr_bw_to_pacing_rate\<close> takes as a \<^verbatim>\<open>u32\<close>
  parameter: it is truncated at the call.
\<close>

definition bbr_init_pacing_rate_from_rtt :: "conn \<Rightarrow> conn" where
  "bbr_init_pacing_rate_from_rtt c =
     (let (rtt_us, c1) =
            (if srtt_us (sk c) \<noteq> 0
             then (max (drop_bit 3 (srtt_us (sk c))) 1, c\<lparr>ca := (ca c)\<lparr>has_seen_rtt := True\<rparr>\<rparr>)
             else (ucast USEC_PER_MSEC, c));
          bw0 = (ucast (snd_cwnd (sk c1)) :: u64) * scast BW_UNIT;
          bw1 = bw0 div ucast rtt_us
      in c1\<lparr>sk := (sk c1)\<lparr>sk_pacing_rate := bbr_bw_to_pacing_rate c1 (ucast bw1) bbr_high_gain\<rparr>\<rparr>)"

text \<open>\<^verbatim>\<open>gain * probe_per / 20\<close> is \<^verbatim>\<open>int\<close> arithmetic: the division truncates towards zero.\<close>

definition bbr_bw_to_pacing_rate_pmodrl :: "params \<Rightarrow> conn \<Rightarrow> u32 \<Rightarrow> cint \<Rightarrow> cint \<Rightarrow> u64" where
  "bbr_bw_to_pacing_rate_pmodrl cfg c bwv gain nominator_arg =
     (let gain1 = (case pmodrl (ca c) of
                     None \<Rightarrow> gain
                   | Some p \<Rightarrow>
                       if classify p = 1 \<and> nominator_arg \<noteq> 0
                       then word_of_int (sint (gain * probe_per cfg) sdiv 20)
                       else gain);
          rate = bbr_rate_bytes_per_sec c (ucast bwv) gain1
      in min rate (sk_max_pacing_rate (sk c)))"

text \<open>
  \<^verbatim>\<open>R_arr[best_index]\<close> is a \<^verbatim>\<open>u64\<close> passed for the \<^verbatim>\<open>u32 bw\<close> parameter, and
  \<^verbatim>\<open>nominator\<close> a \<^verbatim>\<open>u32\<close> passed for an \<^verbatim>\<open>int\<close>.
\<close>

definition bbr_set_pacing_rate :: "params \<Rightarrow> conn \<Rightarrow> u32 \<Rightarrow> cint \<Rightarrow> conn" where
  "bbr_set_pacing_rate cfg c bwv gain =
     (let rate0 = bbr_bw_to_pacing_rate c bwv gain;
          (rate, flag) =
            (case pmodrl (ca c) of
               None \<Rightarrow> (rate0, False)
             | Some p \<Rightarrow>
                 if classify p = 1 \<and> upper_bound p = 1 then
                   (let pmodrl_rate =
                          bbr_bw_to_pacing_rate_pmodrl cfg c
                            (ucast (R_arr p ! unat (best_index p))) BBR_UNIT (nominator p)
                    in if rate0 > pmodrl_rate \<and> optimize_flag cfg \<noteq> 0
                       then (pmodrl_rate, True) else (rate0, False))
                 else (rate0, False));
          c1 = (if \<not> has_seen_rtt (ca c) \<and> srtt_us (sk c) \<noteq> 0
                then bbr_init_pacing_rate_from_rtt c else c);
          c2 = (if bbr_full_bw_reached c1 \<or> rate > sk_pacing_rate (sk c1)
                then c1\<lparr>sk := (sk c1)\<lparr>sk_pacing_rate := rate\<rparr>\<rparr> else c1)
      in case pmodrl (ca c2) of
           None \<Rightarrow> c2
         | Some p \<Rightarrow>
             if classify p = 1 \<and> flag \<and> optimize_flag cfg \<noteq> 0
             then c2\<lparr>sk := (sk c2)\<lparr>sk_pacing_rate := rate\<rparr>\<rparr> else c2)"

definition bbr_min_tso_segs :: "conn \<Rightarrow> u32" where
  "bbr_min_tso_segs c =
     (if sk_pacing_rate (sk c) < scast (signed_drop_bit 3 bbr_min_tso_rate) then 1 else 2)"

section \<open>Errors and early returns\<close>

text \<open>
  A function that can dereference a null \<^verbatim>\<open>pmodrl\<close> or divide by zero returns \<open>error + 'a\<close>;
  \<open>bindE\<close> sequences two such steps, stopping at the first error.
\<close>

definition bindE :: "error + 'a \<Rightarrow> ('a \<Rightarrow> error + 'b) \<Rightarrow> error + 'b" where
  "bindE m f = (case m of Inl e \<Rightarrow> Inl e | Inr x \<Rightarrow> f x)"

text \<open>A block of a function either returns from the function or falls through to the next block.\<close>

datatype 'a ctl = Return 'a | Next 'a

definition set_pmodrl :: "conn \<Rightarrow> PMODRL \<Rightarrow> conn" where
  "set_pmodrl c p = c\<lparr>ca := (ca c)\<lparr>pmodrl := Some p\<rparr>\<rparr>"

section \<open>Congestion window\<close>

text \<open>
  \<^verbatim>\<open>GSO_MAX_SIZE\<close> is 65536; \<^verbatim>\<open>bytes\<close> is a \<^verbatim>\<open>u32\<close>; a zero \<^verbatim>\<open>mss_cache\<close> traps.
\<close>

definition GSO_MAX_SIZE :: cint where "GSO_MAX_SIZE = 65536"

definition bbr_tso_segs_goal :: "kernel \<Rightarrow> conn \<Rightarrow> error + u32" where
  "bbr_tso_segs_goal k c =
     (let bytes = (ucast (min (drop_bit (unat (sk_pacing_shift (sk c))) (sk_pacing_rate (sk c)))
                             (scast (GSO_MAX_SIZE - 1 - MAX_TCP_HEADER k) :: u64)) :: u32)
      in if mss_cache (sk c) = 0 then Inl DivByZero
         else Inr (min (max (bytes div mss_cache (sk c)) (bbr_min_tso_segs c)) 0x7F))"

definition bbr_save_cwnd :: "conn \<Rightarrow> conn" where
  "bbr_save_cwnd c =
     (if (ucast (prev_ca_state (ca c)) :: u8) < TCP_CA_Recovery \<and> mode (ca c) \<noteq> BBR_PROBE_RTT
      then c\<lparr>ca := (ca c)\<lparr>prior_cwnd := snd_cwnd (sk c)\<rparr>\<rparr>
      else c\<lparr>ca := (ca c)\<lparr>prior_cwnd := max (prior_cwnd (ca c)) (snd_cwnd (sk c))\<rparr>\<rparr>)"

definition bbr_bdp :: "conn \<Rightarrow> u32 \<Rightarrow> cint \<Rightarrow> u32" where
  "bbr_bdp c bwv gain =
     (if min_rtt_us (ca c) = - 1 then TCP_INIT_CWND
      else
        (let w = (ucast bwv :: u64) * ucast (min_rtt_us (ca c))
         in ucast ((drop_bit BBR_SCALE (w * scast gain) + scast BW_UNIT - 1) div scast BW_UNIT)))"

definition bbr_quantization_budget :: "kernel \<Rightarrow> conn \<Rightarrow> u32 \<Rightarrow> error + u32" where
  "bbr_quantization_budget k c cwnd =
     bindE (bbr_tso_segs_goal k c) (\<lambda>goal.
       (let cwnd1 = cwnd + 3 * goal;
            cwnd2 = (cwnd1 + 1) AND NOT 1
        in Inr (if mode (ca c) = BBR_PROBE_BW \<and> cycle_idx (ca c) = 0 then cwnd2 + 2 else cwnd2)))"

definition bbr_inflight :: "kernel \<Rightarrow> conn \<Rightarrow> u32 \<Rightarrow> cint \<Rightarrow> error + u32" where
  "bbr_inflight k c bwv gain =
     bbr_quantization_budget k c (bbr_bdp c bwv gain)"

definition bbr_packets_in_net_at_edt :: "kernel \<Rightarrow> conn \<Rightarrow> u32 \<Rightarrow> error + u32" where
  "bbr_packets_in_net_at_edt k c inflight_now =
     (let now_ns = tcp_clock_cache (sk c);
          edt_ns = max (tcp_wstamp_ns (sk c)) now_ns;
          interval_us = (edt_ns - now_ns) div NSEC_PER_USEC;
          interval_delivered = (ucast (drop_bit BW_SCALE ((ucast (bbr_bw c) :: u64) * interval_us)) :: u32)
      in bindE (if BBR_UNIT <s (ucast (pacing_gain (ca c)) :: cint)
                then bindE (bbr_tso_segs_goal k c) (\<lambda>goal. Inr (inflight_now + goal))
                else Inr inflight_now)
           (\<lambda>inflight_at_edt.
              Inr (if interval_delivered \<ge> inflight_at_edt then 0
                   else inflight_at_edt - interval_delivered)))"

text \<open>
  \<^verbatim>\<open>bbr_extra_acked_gain * bbr_extra_acked(sk)\<close> is an \<^verbatim>\<open>int\<close> product, shifted arithmetically.
\<close>

definition bbr_ack_aggregation_cwnd :: "conn \<Rightarrow> u32" where
  "bbr_ack_aggregation_cwnd c =
     (if bbr_extra_acked_gain \<noteq> 0 \<and> bbr_full_bw_reached c then
        (let max_aggr_cwnd = (ucast (((ucast (bbr_bw c) :: u64) * ucast bbr_extra_acked_max_us)
                                       div scast BW_UNIT) :: u32);
             aggr_cwnd = signed_drop_bit BBR_SCALE (bbr_extra_acked_gain * ucast (bbr_extra_acked c))
         in min aggr_cwnd max_aggr_cwnd)
      else 0)"

text \<open>
  \<^verbatim>\<open>bbr_set_cwnd_to_recover_or_restore\<close> returns its boolean result, the value written to
  \<^verbatim>\<open>*new_cwnd\<close>, and the connection. \<^verbatim>\<open>max_t(s32, cwnd - rs->losses, 1)\<close> compares signed.
\<close>

definition bbr_set_cwnd_to_recover_or_restore ::
    "conn \<Rightarrow> rate_sample \<Rightarrow> u32 \<Rightarrow> bool \<times> u32 \<times> conn" where
  "bbr_set_cwnd_to_recover_or_restore c rs acked =
     (let prev_state = (ucast (prev_ca_state (ca c)) :: u8);
          state = icsk_ca_state (sk c);
          cwnd0 = snd_cwnd (sk c);
          cwnd1 = (if 0 <s rs_losses rs
                   then (if cwnd0 - rs_losses rs <s 1 then 1 else cwnd0 - rs_losses rs)
                   else cwnd0);
          (cwnd2, c1) =
            (if state = TCP_CA_Recovery \<and> prev_state \<noteq> TCP_CA_Recovery then
               (let b1 = (ca c)\<lparr>packet_conservation := True,
                                 next_rtt_delivered := delivered (sk c)\<rparr>;
                    b2 = (case pmodrl b1 of
                            None \<Rightarrow> b1
                          | Some p \<Rightarrow>
                              b1\<lparr>pmodrl := Some (p\<lparr>pm_next_rtt_delivered := delivered (sk c)\<rparr>)\<rparr>)
                in (tcp_packets_in_flight (sk c) + acked, c\<lparr>ca := b2\<rparr>))
             else if prev_state \<ge> TCP_CA_Recovery \<and> state < TCP_CA_Recovery then
               (max cwnd1 (prior_cwnd (ca c)), c\<lparr>ca := (ca c)\<lparr>packet_conservation := False\<rparr>\<rparr>)
             else (cwnd1, c));
          c2 = c1\<lparr>ca := (ca c1)\<lparr>prev_ca_state := ucast state\<rparr>\<rparr>
      in if packet_conservation (ca c2)
         then (True, max cwnd2 (tcp_packets_in_flight (sk c2) + acked), c2)
         else (False, cwnd2, c2))"

text \<open>The label \<^verbatim>\<open>done\<close> of \<^verbatim>\<open>bbr_set_cwnd\<close>: apply the clamp and the PROBE_RTT cap.\<close>

definition bbr_set_cwnd_done :: "conn \<Rightarrow> u32 \<Rightarrow> conn" where
  "bbr_set_cwnd_done c cwnd =
     (let c1 = c\<lparr>sk := (sk c)\<lparr>snd_cwnd := min cwnd (snd_cwnd_clamp (sk c))\<rparr>\<rparr>
      in if mode (ca c1) = BBR_PROBE_RTT
         then c1\<lparr>sk := (sk c1)\<lparr>snd_cwnd := min (snd_cwnd (sk c1)) bbr_cwnd_min_target\<rparr>\<rparr>
         else c1)"

definition bbr_set_cwnd ::
    "kernel \<Rightarrow> conn \<Rightarrow> rate_sample \<Rightarrow> u32 \<Rightarrow> u32 \<Rightarrow> cint \<Rightarrow> error + conn" where
  "bbr_set_cwnd k c rs acked bwv gain =
     (if acked = 0 then Inr (bbr_set_cwnd_done c (snd_cwnd (sk c)))
      else
        (case bbr_set_cwnd_to_recover_or_restore c rs acked of
           (True, cwnd, c1) \<Rightarrow> Inr (bbr_set_cwnd_done c1 cwnd)
         | (False, cwnd, c1) \<Rightarrow>
             (let target0 = bbr_bdp c1 bwv gain + bbr_ack_aggregation_cwnd c1
              in bindE (bbr_quantization_budget k c1 target0) (\<lambda>target_cwnd.
                   (let cwnd1 = (if bbr_full_bw_reached c1 then min (cwnd + acked) target_cwnd
                                 else if cwnd < target_cwnd \<or> delivered (sk c1) < TCP_INIT_CWND
                                 then cwnd + acked
                                 else cwnd);
                        cwnd2 = max cwnd1 bbr_cwnd_min_target
                    in Inr (bbr_set_cwnd_done c1 cwnd2))))))"

section \<open>Gain cycling and modes\<close>

text \<open>
  \<^verbatim>\<open>bbr_is_next_cycle_phase\<close> reads \<^verbatim>\<open>bbr->pmodrl->cycle_mstamp\<close> without a null check.
  The operands of \<^verbatim>\<open>&&\<close> and \<^verbatim>\<open>||\<close> are evaluated left to right and only as far as needed.
\<close>

definition bbr_is_next_cycle_phase :: "kernel \<Rightarrow> conn \<Rightarrow> rate_sample \<Rightarrow> error + bool" where
  "bbr_is_next_cycle_phase k c rs =
     (case pmodrl (ca c) of
        None \<Rightarrow> Inl NullDeref
      | Some p \<Rightarrow>
          (let is_full_length =
                 (tcp_stamp_us_delta (delivered_mstamp (sk c)) (cycle_mstamp p) > min_rtt_us (ca c))
           in if (ucast (pacing_gain (ca c)) :: cint) = BBR_UNIT then Inr is_full_length
              else
                bindE (bbr_packets_in_net_at_edt k c (rs_prior_in_flight rs)) (\<lambda>inflight.
                  (let bwv = bbr_max_bw c
                   in if BBR_UNIT <s (ucast (pacing_gain (ca c)) :: cint) then
                        (if \<not> is_full_length then Inr False
                         else if rs_losses rs \<noteq> 0 then Inr True
                         else bindE (bbr_inflight k c bwv (ucast (pacing_gain (ca c))))
                                (\<lambda>target. Inr (inflight \<ge> target)))
                      else
                        (if is_full_length then Inr True
                         else bindE (bbr_inflight k c bwv BBR_UNIT)
                                (\<lambda>target. Inr (inflight \<le> target)))))))"

text \<open>\<^verbatim>\<open>bbr_advance_cycle_phase\<close> writes \<^verbatim>\<open>bbr->pmodrl->cycle_mstamp\<close> without a null check.\<close>

definition bbr_advance_cycle_phase :: "conn \<Rightarrow> error + conn" where
  "bbr_advance_cycle_phase c =
     (let b1 = (ca c)\<lparr>cycle_idx := (cycle_idx (ca c) + 1) AND ucast (CYCLE_LEN - 1)\<rparr>
      in case pmodrl b1 of
           None \<Rightarrow> Inl NullDeref
         | Some p \<Rightarrow>
             Inr (c\<lparr>ca := b1\<lparr>pmodrl := Some (p\<lparr>cycle_mstamp := delivered_mstamp (sk c)\<rparr>)\<rparr>\<rparr>))"

definition bbr_update_cycle_phase :: "kernel \<Rightarrow> conn \<Rightarrow> rate_sample \<Rightarrow> error + conn" where
  "bbr_update_cycle_phase k c rs =
     (if mode (ca c) = BBR_PROBE_BW
      then bindE (bbr_is_next_cycle_phase k c rs)
             (\<lambda>nxt. if nxt then bbr_advance_cycle_phase c else Inr c)
      else Inr c)"

definition bbr_reset_startup_mode :: "conn \<Rightarrow> conn" where
  "bbr_reset_startup_mode c = c\<lparr>ca := (ca c)\<lparr>mode := BBR_STARTUP\<rparr>\<rparr>"

definition bbr_reset_probe_bw_mode :: "kernel \<Rightarrow> conn \<Rightarrow> error + conn" where
  "bbr_reset_probe_bw_mode k c =
     bbr_advance_cycle_phase
       (c\<lparr>ca := (ca c)\<lparr>mode := BBR_PROBE_BW,
                        cycle_idx := ucast (CYCLE_LEN - 1 - prandom_u32_max k bbr_cycle_rand)\<rparr>\<rparr>)"

definition bbr_reset_mode :: "kernel \<Rightarrow> conn \<Rightarrow> error + conn" where
  "bbr_reset_mode k c =
     (if \<not> bbr_full_bw_reached c then Inr (bbr_reset_startup_mode c)
      else bbr_reset_probe_bw_mode k c)"

section \<open>Long-term bandwidth sampling\<close>

definition bbr_reset_lt_bw_sampling_interval :: "conn \<Rightarrow> conn" where
  "bbr_reset_lt_bw_sampling_interval c =
     c\<lparr>ca := (ca c)\<lparr>lt_last_stamp := ucast (delivered_mstamp (sk c) div USEC_PER_MSEC),
                      lt_last_delivered := delivered (sk c),
                      lt_last_lost := lost (sk c),
                      lt_rtt_cnt := 0\<rparr>\<rparr>"

definition bbr_reset_lt_bw_sampling :: "conn \<Rightarrow> conn" where
  "bbr_reset_lt_bw_sampling c =
     bbr_reset_lt_bw_sampling_interval
       (c\<lparr>ca := (ca c)\<lparr>lt_bw := 0, lt_use_bw := False, lt_is_sampling := False\<rparr>\<rparr>)"

definition bbr_lt_bw_interval_done :: "conn \<Rightarrow> u32 \<Rightarrow> conn" where
  "bbr_lt_bw_interval_done c bwv =
     (let diff = abs32 (bwv - lt_bw (ca c))
      in if lt_bw (ca c) \<noteq> 0
            \<and> (diff * BBR_UNIT \<le> bbr_lt_bw_ratio * lt_bw (ca c)
               \<or> bbr_rate_bytes_per_sec c (ucast diff) BBR_UNIT \<le> ucast bbr_lt_bw_diff)
         then c\<lparr>ca := (ca c)\<lparr>lt_bw := drop_bit 1 (bwv + lt_bw (ca c)),
                               lt_use_bw := True,
                               pacing_gain := ucast BBR_UNIT,
                               lt_rtt_cnt := 0\<rparr>\<rparr>
         else bbr_reset_lt_bw_sampling_interval (c\<lparr>ca := (ca c)\<lparr>lt_bw := bwv\<rparr>\<rparr>))"

text \<open>
  The second half of \<^verbatim>\<open>bbr_lt_bw_sampling\<close>, from the test of \<^verbatim>\<open>rs->is_app_limited\<close> on.
  \<^verbatim>\<open>~0U / USEC_PER_MSEC\<close> is a \<^verbatim>\<open>long\<close> division, 4294967.
\<close>

definition bbr_lt_bw_sampling_tail :: "conn \<Rightarrow> rate_sample \<Rightarrow> error + conn" where
  "bbr_lt_bw_sampling_tail c rs =
     (if rs_is_app_limited rs then Inr (bbr_reset_lt_bw_sampling c)
      else
        (let c1 = (if round_start (ca c)
                   then c\<lparr>ca := (ca c)\<lparr>lt_rtt_cnt := lt_rtt_cnt (ca c) + 1\<rparr>\<rparr> else c)
         in if (ucast (lt_rtt_cnt (ca c1)) :: u32) < bbr_lt_intvl_min_rtts then Inr c1
            else if (ucast (lt_rtt_cnt (ca c1)) :: u32) > 4 * bbr_lt_intvl_min_rtts
            then Inr (bbr_reset_lt_bw_sampling c1)
            else if rs_losses rs = 0 then Inr c1
            else
              (let lost = lost (sk c1) - lt_last_lost (ca c1);
                   delivered = delivered (sk c1) - lt_last_delivered (ca c1)
               in if delivered = 0 \<or> push_bit BBR_SCALE lost < bbr_lt_loss_thresh * delivered
                  then Inr c1
                  else
                    (let t = (ucast (delivered_mstamp (sk c1) div USEC_PER_MSEC) :: u32)
                               - lt_last_stamp (ca c1)
                     in if t <s 1 then Inr c1
                        else if (ucast t :: u64) \<ge> 0xFFFFFFFF div USEC_PER_MSEC
                        then Inr (bbr_reset_lt_bw_sampling c1)
                        else
                          bindE (div_u64 ((ucast delivered :: u64) * scast BW_UNIT)
                                   (t * ucast USEC_PER_MSEC))
                            (\<lambda>bwv. Inr (bbr_lt_bw_interval_done c1 (ucast bwv)))))))"

text \<open>\<^verbatim>\<open>++bbr->lt_rtt_cnt\<close> is evaluated only when the two tests before it hold.\<close>

definition bbr_lt_bw_sampling :: "kernel \<Rightarrow> conn \<Rightarrow> rate_sample \<Rightarrow> error + conn" where
  "bbr_lt_bw_sampling k c rs =
     (if lt_use_bw (ca c) then
        (if mode (ca c) = BBR_PROBE_BW \<and> round_start (ca c) then
           (let c1 = c\<lparr>ca := (ca c)\<lparr>lt_rtt_cnt := lt_rtt_cnt (ca c) + 1\<rparr>\<rparr>
            in if (ucast (lt_rtt_cnt (ca c1)) :: u32) \<ge> bbr_lt_bw_max_rtts
               then bbr_reset_probe_bw_mode k (bbr_reset_lt_bw_sampling c1)
               else Inr c1)
         else Inr c)
      else if \<not> lt_is_sampling (ca c) then
        (if rs_losses rs = 0 then Inr c
         else bbr_lt_bw_sampling_tail
                ((bbr_reset_lt_bw_sampling_interval c)
                   \<lparr>ca := (ca (bbr_reset_lt_bw_sampling_interval c))\<lparr>lt_is_sampling := True\<rparr>\<rparr>)
                rs)
      else bbr_lt_bw_sampling_tail c rs)"

section \<open>The path model\<close>

text \<open>
  \<^verbatim>\<open>do_div(bw, rs->interval_us)\<close> converts the \<^verbatim>\<open>long\<close> interval to a \<^verbatim>\<open>u32\<close> divisor, and
  \<^verbatim>\<open>minmax_running_max\<close> takes the \<^verbatim>\<open>u64\<close> sample as a \<^verbatim>\<open>u32\<close>.
\<close>

definition bbr_update_bw :: "kernel \<Rightarrow> conn \<Rightarrow> rate_sample \<Rightarrow> error + conn" where
  "bbr_update_bw k c rs =
     (let c0 = c\<lparr>ca := (ca c)\<lparr>round_start := False\<rparr>\<rparr>
      in if rs_delivered rs <s 0 \<or> rs_interval_us rs \<le>s 0 then Inr c0
         else
           (let c1 = (if \<not> before (rs_prior_delivered rs) (next_rtt_delivered (ca c0))
                      then c0\<lparr>ca := (ca c0)\<lparr>next_rtt_delivered := delivered (sk c0),
                                              rtt_cnt := rtt_cnt (ca c0) + 1,
                                              round_start := True,
                                              packet_conservation := False\<rparr>\<rparr>
                      else c0)
            in bindE (bbr_lt_bw_sampling k c1 rs) (\<lambda>c2.
                 bindE (div_u64 ((scast (rs_delivered rs) :: u64) * scast BW_UNIT)
                          (ucast (rs_interval_us rs))) (\<lambda>bwv.
                   if \<not> rs_is_app_limited rs \<or> bwv \<ge> ucast (bbr_max_bw c2)
                   then Inr (c2\<lparr>ca := (ca c2)\<lparr>bw := minmax_running_max (bw (ca c2))
                                                       bbr_bw_rtts (rtt_cnt (ca c2)) (ucast bwv)\<rparr>\<rparr>)
                   else Inr c2))))"

text \<open>\<^verbatim>\<open>extra_acked[idx]\<close> for the one-bit index \<^verbatim>\<open>extra_acked_win_idx\<close>.\<close>

definition extra_acked_get :: "u16 \<times> u16 \<Rightarrow> bool \<Rightarrow> u16" where
  "extra_acked_get ea idx = (if idx then snd ea else fst ea)"

definition extra_acked_set :: "u16 \<times> u16 \<Rightarrow> bool \<Rightarrow> u16 \<Rightarrow> u16 \<times> u16" where
  "extra_acked_set ea idx v = (if idx then (fst ea, v) else (v, snd ea))"

definition bbr_update_ack_aggregation :: "conn \<Rightarrow> rate_sample \<Rightarrow> conn" where
  "bbr_update_ack_aggregation c rs =
     (if bbr_extra_acked_gain = 0 \<or> rs_acked_sacked rs = 0
         \<or> rs_delivered rs <s 0 \<or> rs_interval_us rs \<le>s 0 then c
      else
        (let b0 = ca c;
             b1 = (if round_start b0 then
                     (let b = b0\<lparr>extra_acked_win_rtts :=
                                    ucast (min (0x1F :: cint) (ucast (extra_acked_win_rtts b0) + 1))\<rparr>
                      in if (ucast (extra_acked_win_rtts b) :: u32) \<ge> bbr_extra_acked_win_rtts
                         then (let idx = \<not> extra_acked_win_idx b
                               in b\<lparr>extra_acked_win_rtts := 0,
                                     extra_acked_win_idx := idx,
                                     extra_acked := extra_acked_set (extra_acked b) idx 0\<rparr>)
                         else b)
                   else b0);
             c1 = c\<lparr>ca := b1\<rparr>;
             epoch_us = tcp_stamp_us_delta (delivered_mstamp (sk c1)) (ack_epoch_mstamp b1);
             expected0 = (ucast (((ucast (bbr_bw c1) :: u64) * ucast epoch_us) div scast BW_UNIT) :: u32);
             (b2, expected_acked) =
               (if (ucast (ack_epoch_acked b1) :: u32) \<le> expected0
                   \<or> (ucast (ack_epoch_acked b1) :: u32) + rs_acked_sacked rs
                        \<ge> bbr_ack_epoch_acked_reset_thresh
                then (b1\<lparr>ack_epoch_acked := 0, ack_epoch_mstamp := delivered_mstamp (sk c1)\<rparr>, 0)
                else (b1, expected0));
             b3 = b2\<lparr>ack_epoch_acked :=
                        ucast (min (0xFFFFF :: u32) (ucast (ack_epoch_acked b2) + rs_acked_sacked rs))\<rparr>;
             extra0 = (ucast (ack_epoch_acked b3) :: u32) - expected_acked;
             extra1 = min extra0 (snd_cwnd (sk c1));
             b4 = (if extra1 > ucast (extra_acked_get (extra_acked b3) (extra_acked_win_idx b3))
                   then b3\<lparr>extra_acked :=
                              extra_acked_set (extra_acked b3) (extra_acked_win_idx b3) (ucast extra1)\<rparr>
                   else b3)
         in c1\<lparr>ca := b4\<rparr>))"

definition bbr_check_full_bw_reached :: "conn \<Rightarrow> rate_sample \<Rightarrow> conn" where
  "bbr_check_full_bw_reached c rs =
     (if bbr_full_bw_reached c \<or> \<not> round_start (ca c) \<or> rs_is_app_limited rs then c
      else
        (let bw_thresh = (ucast (drop_bit BBR_SCALE
                                   ((ucast (full_bw (ca c)) :: u64) * ucast bbr_full_bw_thresh)) :: u32)
         in if bbr_max_bw c \<ge> bw_thresh
            then c\<lparr>ca := (ca c)\<lparr>full_bw := bbr_max_bw c, full_bw_cnt := 0\<rparr>\<rparr>
            else
              (let cnt = full_bw_cnt (ca c) + 1
               in c\<lparr>ca := (ca c)\<lparr>full_bw_cnt := cnt,
                                    full_bw_reached := ((ucast cnt :: u32) \<ge> bbr_full_bw_cnt)\<rparr>\<rparr>)))"

definition bbr_check_drain :: "kernel \<Rightarrow> conn \<Rightarrow> rate_sample \<Rightarrow> error + conn" where
  "bbr_check_drain k c rs =
     bindE (if mode (ca c) = BBR_STARTUP \<and> bbr_full_bw_reached c
            then (let c1 = c\<lparr>ca := (ca c)\<lparr>mode := BBR_DRAIN\<rparr>\<rparr>
                  in bindE (bbr_inflight k c1 (bbr_max_bw c1) BBR_UNIT)
                       (\<lambda>v. Inr (c1\<lparr>sk := (sk c1)\<lparr>snd_ssthresh := v\<rparr>\<rparr>)))
            else Inr c)
       (\<lambda>c2. if mode (ca c2) = BBR_DRAIN
              then bindE (bbr_packets_in_net_at_edt k c2 (tcp_packets_in_flight (sk c2))) (\<lambda>inflight.
                     bindE (bbr_inflight k c2 (bbr_max_bw c2) BBR_UNIT) (\<lambda>target.
                       if inflight \<le> target then bbr_reset_probe_bw_mode k c2 else Inr c2))
              else Inr c2)"

definition bbr_check_probe_rtt_done :: "kernel \<Rightarrow> conn \<Rightarrow> error + conn" where
  "bbr_check_probe_rtt_done k c =
     (if \<not> (probe_rtt_done_stamp (ca c) \<noteq> 0
             \<and> after (tcp_jiffies32 k) (probe_rtt_done_stamp (ca c)))
      then Inr c
      else bbr_reset_mode k
             (c\<lparr>ca := (ca c)\<lparr>min_rtt_stamp := tcp_jiffies32 k\<rparr>,
                sk := (sk c)\<lparr>snd_cwnd := max (snd_cwnd (sk c)) (prior_cwnd (ca c))\<rparr>\<rparr>))"

text \<open>
  \<^verbatim>\<open>rs->rtt_us\<close> is a \<^verbatim>\<open>long\<close>; it is compared with \<^verbatim>\<open>min_rtt_us\<close> as a \<^verbatim>\<open>long\<close> and stored
  truncated. \<^verbatim>\<open>x ? : 1\<close> is \<^verbatim>\<open>x\<close> unless \<^verbatim>\<open>x\<close> is zero.
\<close>

definition bbr_update_min_rtt :: "kernel \<Rightarrow> conn \<Rightarrow> rate_sample \<Rightarrow> error + conn" where
  "bbr_update_min_rtt k c rs =
     (let filter_expired =
            after (tcp_jiffies32 k) (min_rtt_stamp (ca c) + bbr_min_rtt_win_sec * HZ k);
          c1 = (if 0 \<le>s rs_rtt_us rs
                   \<and> (rs_rtt_us rs \<le>s ucast (min_rtt_us (ca c))
                      \<or> (filter_expired \<and> \<not> rs_is_ack_delayed rs))
                then c\<lparr>ca := (ca c)\<lparr>min_rtt_us := ucast (rs_rtt_us rs),
                                     min_rtt_stamp := tcp_jiffies32 k\<rparr>\<rparr>
                else c);
          c2 = (if bbr_probe_rtt_mode_ms > 0 \<and> filter_expired \<and> \<not> idle_restart (ca c1)
                   \<and> mode (ca c1) \<noteq> BBR_PROBE_RTT
                then (let c' = bbr_save_cwnd (c1\<lparr>ca := (ca c1)\<lparr>mode := BBR_PROBE_RTT\<rparr>\<rparr>)
                      in c'\<lparr>ca := (ca c')\<lparr>probe_rtt_done_stamp := 0\<rparr>\<rparr>)
                else c1)
      in bindE
           (if mode (ca c2) = BBR_PROBE_RTT then
              (let x = delivered (sk c2) + tcp_packets_in_flight (sk c2);
                   c3 = c2\<lparr>sk := (sk c2)\<lparr>app_limited := (if x \<noteq> 0 then x else 1)\<rparr>\<rparr>;
                   c4 = (case pmodrl (ca c3) of
                           None \<Rightarrow> c3
                         | Some p \<Rightarrow> set_pmodrl c3 (p\<lparr>probe_rtt_flag := 1\<rparr>))
               in if probe_rtt_done_stamp (ca c4) = 0
                     \<and> tcp_packets_in_flight (sk c4) \<le> bbr_cwnd_min_target
                  then
                    (let c5 = c4\<lparr>ca := (ca c4)\<lparr>probe_rtt_done_stamp :=
                                                   tcp_jiffies32 k
                                                   + ucast (msecs_to_jiffies k bbr_probe_rtt_mode_ms),
                                                 probe_rtt_round_done := False,
                                                 next_rtt_delivered := delivered (sk c4)\<rparr>\<rparr>
                     in Inr (case pmodrl (ca c5) of
                               None \<Rightarrow> c5
                             | Some p \<Rightarrow>
                                 set_pmodrl c5 (p\<lparr>pm_next_rtt_delivered := delivered (sk c5)\<rparr>)))
                  else if probe_rtt_done_stamp (ca c4) \<noteq> 0 then
                    (let c5 = (if round_start (ca c4)
                               then c4\<lparr>ca := (ca c4)\<lparr>probe_rtt_round_done := True\<rparr>\<rparr> else c4)
                     in if probe_rtt_round_done (ca c5) then bbr_check_probe_rtt_done k c5
                        else Inr c5)
                  else Inr c4)
            else Inr c2)
           (\<lambda>c6. Inr (if 0 <s rs_delivered rs
                       then c6\<lparr>ca := (ca c6)\<lparr>idle_restart := False\<rparr>\<rparr> else c6)))"

definition bbr_update_gains :: "conn \<Rightarrow> conn" where
  "bbr_update_gains c =
     (case mode (ca c) of
        BBR_STARTUP \<Rightarrow>
          c\<lparr>ca := (ca c)\<lparr>pacing_gain := ucast bbr_high_gain, cwnd_gain := ucast bbr_high_gain\<rparr>\<rparr>
      | BBR_DRAIN \<Rightarrow>
          c\<lparr>ca := (ca c)\<lparr>pacing_gain := ucast bbr_drain_gain, cwnd_gain := ucast bbr_high_gain\<rparr>\<rparr>
      | BBR_PROBE_BW \<Rightarrow>
          c\<lparr>ca := (ca c)\<lparr>pacing_gain :=
                             (if lt_use_bw (ca c) then ucast BBR_UNIT
                              else ucast (bbr_pacing_gain ! unat (cycle_idx (ca c)))),
                           cwnd_gain := ucast bbr_cwnd_gain\<rparr>\<rparr>
      | BBR_PROBE_RTT \<Rightarrow>
          c\<lparr>ca := (ca c)\<lparr>pacing_gain := ucast BBR_UNIT, cwnd_gain := ucast BBR_UNIT\<rparr>\<rparr>)"

definition bbr_update_model :: "kernel \<Rightarrow> conn \<Rightarrow> rate_sample \<Rightarrow> error + conn" where
  "bbr_update_model k c rs =
     bindE (bbr_update_bw k c rs) (\<lambda>c1.
       bindE (bbr_update_cycle_phase k (bbr_update_ack_aggregation c1 rs) rs) (\<lambda>c2.
         bindE (bbr_check_drain k (bbr_check_full_bw_reached c2 rs) rs) (\<lambda>c3.
           bindE (bbr_update_min_rtt k c3 rs) (\<lambda>c4.
             Inr (bbr_update_gains c4)))))"

section \<open>The detector: candidate grid and classification\<close>

text \<open>
  The functions of the detector work on the block \<^verbatim>\<open>bbr->pmodrl\<close>; the model passes the block
  itself where the C code passes \<^verbatim>\<open>sk\<close> and dereferences \<^verbatim>\<open>bbr->pmodrl\<close> at every access.
  Indices into \<^verbatim>\<open>B_arr\<close> and \<^verbatim>\<open>R_arr\<close> are natural numbers below 9.

  \<^verbatim>\<open>comp\<close>: the loop over \<^verbatim>\<open>i = 1 .. percent_arr_num - 1\<close>, with its \<^verbatim>\<open>break\<close>. The divisor
  \<^verbatim>\<open>r_diff\<close> is a \<^verbatim>\<open>u64\<close> that \<^verbatim>\<open>div_u64\<close> takes as a \<^verbatim>\<open>u32\<close>. The factor is \<^verbatim>\<open>BASED_SCALE\<close>,
  the number 8.
\<close>

fun comp_loop :: "PMODRL \<Rightarrow> u64 \<Rightarrow> nat list \<Rightarrow> nat \<Rightarrow> error + nat" where
  "comp_loop p flow_len_us [] best = Inr best"
| "comp_loop p flow_len_us (i # is) best =
     (let b_diff = abs64 (B_arr p ! i - B_arr p ! best);
          r_diff = abs64 (R_arr p ! i - R_arr p ! best)
      in if r_diff = 0 then comp_loop p flow_len_us is i
         else
           (case div_u64 (b_diff * of_nat BASED_SCALE * 2) (ucast r_diff) of
              Inl e \<Rightarrow> Inl e
            | Inr q \<Rightarrow>
                if q > flow_len_us * of_nat BASED_SCALE then comp_loop p flow_len_us is i
                else Inr best))"

definition comp :: "PMODRL \<Rightarrow> u32 \<Rightarrow> error + nat" where
  "comp p now_us = comp_loop p (ucast (now_us - bbr_start_us p)) [1, 2, 3, 4, 5, 6, 7, 8] 0"

text \<open>
  The loop that raises the candidate rates (lines 1289-1299 with the pre-loss counters and
  lines 1310-1320 with the current ones): \<open>x\<close> is the delivery count times \<^verbatim>\<open>BW_UNIT\<close>,
  \<open>stamp\<close> the time it was taken. The loop returns from \<^verbatim>\<open>estimation_classify\<close> when less
  than a millisecond has passed since \<^verbatim>\<open>bbr_start_us\<close>.
\<close>

fun refine_R :: "u64 \<Rightarrow> u32 \<Rightarrow> PMODRL \<Rightarrow> nat list \<Rightarrow> error + PMODRL ctl" where
  "refine_R x stamp p [] = Inr (Next p)"
| "refine_R x stamp p (i # is) =
     (if x > B_arr p ! i then
        (let h = x - B_arr p ! i;
             t = (ucast stamp :: u64) div USEC_PER_MSEC
                   - (ucast (bbr_start_us p) :: u64) div USEC_PER_MSEC
         in if (ucast t :: u32) <s 1 then Inr (Return p)
            else
              (case div_u64 h (stamp - bbr_start_us p) of
                 Inl e \<Rightarrow> Inl e
               | Inr R \<Rightarrow>
                   refine_R x stamp (p\<lparr>R_arr := (R_arr p)[i := max (R_arr p ! i) R]\<rparr>) is))
      else refine_R x stamp p is)"

definition grid_indices :: "nat list" where
  "grid_indices = [0, 1, 2, 3, 4, 5, 6, 7, 8]"

text \<open>The loop of lines 1279-1288 that fills \<^verbatim>\<open>B_arr\<close> from \<^verbatim>\<open>percent_arr\<close>.\<close>

definition fill_B :: "PMODRL \<Rightarrow> u64 \<Rightarrow> PMODRL" where
  "fill_B p lower_bound_B =
     fold (\<lambda>i q.
             if percent_arr ! i = 0 then q\<lparr>B_arr := (B_arr q)[i := 0]\<rparr>
             else q\<lparr>B_arr := (B_arr q)
                                [i := (ucast (before_loss_delivered q) :: u64)
                                        * scast (percent_arr ! i)
                                      + drop_bit BASED_SCALE
                                          (scast (BW_UNIT - percent_arr ! i) * lower_bound_B)]\<rparr>)
          grid_indices p"

text \<open>
  The statements of \<^verbatim>\<open>estimation_classify\<close> that confirm high loss and populate the
  candidate grid (lines 1271-1299).
\<close>

definition populate_grid :: "PMODRL \<Rightarrow> error + PMODRL ctl" where
  "populate_grid p =
     (let p1 = p\<lparr>high_loss_flag := 1\<rparr>;
          t = (ucast (before_loss_time_us p1) :: u64) div USEC_PER_MSEC
                - (ucast (bbr_start_us p1) :: u64) div USEC_PER_MSEC
      in if (ucast t :: u32) <s 1 then Inr (Return p1)
         else
           bindE (div_u64 ((ucast (before_loss_delivered p1) :: u64) * scast BW_UNIT)
                    (before_loss_time_us p1 - bbr_start_us p1)) (\<lambda>bef_empty.
             (let p2 = p1\<lparr>bef_empty_goodput := bef_empty\<rparr>;
                  lower_bound_B = (ucast (before_loss_delivered p2) :: u64)
                                    * ucast (BASED_UNIT - abrupt_decrease_thresh);
                  p3 = fill_B p2 lower_bound_B
              in refine_R ((ucast (before_loss_delivered p3) :: u64) * scast BW_UNIT)
                   (before_loss_time_us p3) p3 grid_indices)))"

text \<open>
  The block of \<^verbatim>\<open>estimation_classify\<close> under \<^verbatim>\<open>high_loss_flag == 0\<close> (lines 1263-1309).
  \<^verbatim>\<open>7 * bbr->min_rtt_us\<close> and the sum are \<^verbatim>\<open>u32\<close> arithmetic.
\<close>

definition arm_high_loss :: "u32 \<Rightarrow> PMODRL \<Rightarrow> u32 \<Rightarrow> u32 \<Rightarrow> u32 \<Rightarrow> error + PMODRL ctl" where
  "arm_high_loss min_rtt p now_us cur_delivered cur_lost =
     (if high_loss_flag p = 0 then
        (if loss_start_time_us p \<noteq> 0 \<and> loss_start_time_us p + 7 * min_rtt < now_us then
           (let d = cur_delivered - before_loss_delivered p;
                l = cur_lost - before_loss_lost p
            in if d + l \<noteq> 0 \<and> (ucast l :: u64) * 10 > (ucast (d + l) :: u64) * 2
               then populate_grid p
               else Inr (Return (p\<lparr>loss_start_time_us := 0\<rparr>)))
         else Inr (Return p))
      else Inr (Next p))"

text \<open>
  The body of the loop \<^verbatim>\<open>while(best_index == 0)\<close> up to the call of \<^verbatim>\<open>comp\<close> (lines
  1324-1340). After the inner \<^verbatim>\<open>for\<close> loop \<^verbatim>\<open>i\<close> is 0, so \<^verbatim>\<open>R_arr[i]\<close> is \<^verbatim>\<open>R_arr[0]\<close>. The two
  divisions are not guarded.
\<close>

definition grid_shift :: "PMODRL \<Rightarrow> u32 \<Rightarrow> u32 \<Rightarrow> error + PMODRL" where
  "grid_shift p now_us cur_delivered =
     (let incr_diff = B_arr p ! 0 - B_arr p ! 1;
          p1 = fold (\<lambda>i q. q\<lparr>B_arr := (B_arr q)[i := B_arr q ! (i - 1)],
                              R_arr := (R_arr q)[i := R_arr q ! (i - 1)]\<rparr>)
                 [8, 7, 6, 5, 4, 3, 2, 1] p;
          p2 = p1\<lparr>B_arr := (B_arr p1)[0 := B_arr p1 ! 0 + incr_diff]\<rparr>;
          p3 = p2\<lparr>R_arr := (R_arr p2)[0 := 0]\<rparr>;
          x = (ucast cur_delivered :: u64) * scast BW_UNIT;
          y = (ucast (before_loss_delivered p3) :: u64) * scast BW_UNIT
      in bindE (if x > B_arr p3 ! 0
                then bindE (div_u64 (x - B_arr p3 ! 0) (now_us - bbr_start_us p3))
                       (\<lambda>R. Inr (p3\<lparr>R_arr := (R_arr p3)[0 := max (R_arr p3 ! 0) R]\<rparr>))
                else Inr p3)
           (\<lambda>p4. if y > B_arr p4 ! 0
                  then bindE (div_u64 (y - B_arr p4 ! 0) (before_loss_time_us p4 - bbr_start_us p4))
                         (\<lambda>R. Inr (p4\<lparr>R_arr := (R_arr p4)[0 := max (R_arr p4 ! 0) R]\<rparr>))
                  else Inr p4))"

text \<open>
  The loop \<^verbatim>\<open>while(best_index == 0)\<close> itself. Nothing bounds its iterations, so the model is
  a partial function: \<open>None\<close> stands for a loop that does not end.
\<close>

partial_function (option) grid_shift_loop ::
    "u32 \<Rightarrow> u32 \<Rightarrow> PMODRL \<Rightarrow> nat \<Rightarrow> (error + PMODRL \<times> nat) option" where
  "grid_shift_loop now_us cur_delivered p best =
     (if best = 0 then
        (case grid_shift p now_us cur_delivered of
           Inl e \<Rightarrow> Some (Inl e)
         | Inr p1 \<Rightarrow>
             (case comp p1 now_us of
                Inl e \<Rightarrow> Some (Inl e)
              | Inr b \<Rightarrow> grid_shift_loop now_us cur_delivered p1 b))
      else Some (Inr (p, best)))"

declare grid_shift_loop.simps [code]

text \<open>
  The classification at the end of \<^verbatim>\<open>estimation_classify\<close> (lines 1344-1387). The result
  is the detector block and whether \<^verbatim>\<open>bbr_reset_lt_bw_sampling(sk)\<close> is called (line 1364).
  \<^verbatim>\<open>10 * bbr->min_rtt_us\<close> is \<^verbatim>\<open>u32\<close> arithmetic.
\<close>

definition classify_step :: "u32 \<Rightarrow> u64 \<Rightarrow> PMODRL \<Rightarrow> u32 \<Rightarrow> nat \<Rightarrow> PMODRL \<times> bool" where
  "classify_step min_rtt tp_bytes_acked p now_us best =
     (let abrupt_decrease_flag =
            (R_arr p ! best * scast BASED_UNIT
               \<le> ucast abrupt_decrease_thresh * bef_empty_goodput p)
      in if classify p = 1 then
           (if \<not> abrupt_decrease_flag then (p\<lparr>classify := 2, disable_flag := 1\<rparr>, False)
            else (p, False))
         else if high_loss_flag p \<noteq> 0 \<and> abrupt_decrease_flag then
           (let p1 = (if classify_time_us p = 0 then p\<lparr>classify_time_us := now_us\<rparr> else p);
                reset = (reset_ltbw_flag p1 = 0);
                p2 = (if reset then p1\<lparr>reset_ltbw_flag := 1\<rparr> else p1);
                p3 = (if R_arr p2 ! best \<noteq> mem_R p2 \<or> B_arr p2 ! best \<noteq> mem_B p2
                      then p2\<lparr>classify_time_us := now_us,
                               mem_B := B_arr p2 ! best,
                               mem_R := R_arr p2 ! best\<rparr>
                      else if now_us - classify_time_us p2 > 10 * min_rtt
                      then p2\<lparr>classify := 1,
                               upper_bound := 1,
                               detected_time := now_us - bbr_start_us p2,
                               detected_bytes_acked := tp_bytes_acked\<rparr>
                      else p2)
            in (p3, reset))
         else (p\<lparr>classify_time_us := 0\<rparr>, False))"

text \<open>
  \<^verbatim>\<open>estimation_classify\<close>: the delivery counter is \<^verbatim>\<open>tp->snd_una / tp->mss_cache\<close> when
  \<^verbatim>\<open>use_goodput\<close> is set.
\<close>

definition cur_delivered_of :: "params \<Rightarrow> conn \<Rightarrow> PMODRL \<Rightarrow> error + u32" where
  "cur_delivered_of cfg c p =
     (if use_goodput cfg \<noteq> 0
      then (if mss_cache (sk c) = 0 then Inl DivByZero
            else Inr (snd_una (sk c) div mss_cache (sk c) - transfer_start_deliverd p))
      else Inr (delivered (sk c) - transfer_start_deliverd p))"

definition estimation_classify :: "params \<Rightarrow> kernel \<Rightarrow> conn \<Rightarrow> (error + conn) option" where
  "estimation_classify cfg k c =
     (case pmodrl (ca c) of
        None \<Rightarrow> Some (Inl NullDeref)
      | Some p \<Rightarrow>
          (let now_us = jiffies_to_usecs k (tcp_jiffies32 k);
               cur_lost = lost (sk c) - transfer_start_lost p
           in case cur_delivered_of cfg c p of
                Inl e \<Rightarrow> Some (Inl e)
              | Inr cur_delivered \<Rightarrow>
                  (case arm_high_loss (min_rtt_us (ca c)) p now_us cur_delivered cur_lost of
                     Inl e \<Rightarrow> Some (Inl e)
                   | Inr (Return p1) \<Rightarrow> Some (Inr (set_pmodrl c p1))
                   | Inr (Next p1) \<Rightarrow>
                       (case refine_R ((ucast cur_delivered :: u64) * scast BW_UNIT) now_us p1
                               grid_indices of
                          Inl e \<Rightarrow> Some (Inl e)
                        | Inr (Return p2) \<Rightarrow> Some (Inr (set_pmodrl c p2))
                        | Inr (Next p2) \<Rightarrow>
                            (case comp p2 now_us of
                               Inl e \<Rightarrow> Some (Inl e)
                             | Inr b \<Rightarrow>
                                 (case grid_shift_loop now_us cur_delivered
                                         (p2\<lparr>best_index := of_nat b\<rparr>) b of
                                    None \<Rightarrow> None
                                  | Some (Inl e) \<Rightarrow> Some (Inl e)
                                  | Some (Inr (p3, b3)) \<Rightarrow>
                                      (case classify_step (min_rtt_us (ca c)) (bytes_acked (sk c))
                                              (p3\<lparr>best_index := of_nat b3\<rparr>) now_us b3 of
                                         (p4, reset) \<Rightarrow>
                                           Some (Inr (set_pmodrl
                                                        (if reset then bbr_reset_lt_bw_sampling c
                                                         else c) p4)))))))))"

section \<open>The cap and probe controller\<close>

text \<open>
  \<^verbatim>\<open>probe_pmodrl\<close>. The counters are \<^verbatim>\<open>u32\<close> and are compared with the \<^verbatim>\<open>int\<close> parameters
  \<^verbatim>\<open>monitor_peroid\<close> and \<^verbatim>\<open>probe_interval\<close> as unsigned numbers.
\<close>

definition probe_pmodrl :: "params \<Rightarrow> conn \<Rightarrow> error + conn" where
  "probe_pmodrl cfg c =
     (case pmodrl (ca c) of
        None \<Rightarrow> Inr c
      | Some p \<Rightarrow>
          if classify p = 1 \<and> optimize_flag cfg \<noteq> 0 then
            (if upper_bound p \<noteq> 1 \<or> nominator p \<noteq> 0 then
               (let p1 = (if pm_round_start p \<noteq> 0 then
                            (let q = p\<lparr>round_count_no := round_count_no p + 1\<rparr>
                             in if round_count_no q \<ge> monitor_peroid cfg
                                   \<and> mem_B q = B_arr q ! unat (best_index q)
                                   \<and> mem_R q = R_arr q ! unat (best_index q)
                                then q\<lparr>upper_bound := 1, nominator := 0, round_count_no := 0\<rparr>
                                else q)
                          else p);
                    p2 = (if mem_B p1 \<noteq> B_arr p1 ! unat (best_index p1)
                             \<or> mem_R p1 \<noteq> R_arr p1 ! unat (best_index p1)
                          then p1\<lparr>upper_bound := 2,
                                   nominator := 0,
                                   mem_B := B_arr p1 ! unat (best_index p1),
                                   mem_R := R_arr p1 ! unat (best_index p1),
                                   round_count_no := 0,
                                   pm_next_rtt_delivered := delivered (sk c),
                                   dis_loss_start := 2\<rparr>
                          else p1)
                in Inr (set_pmodrl c p2))
             else
               (if pm_round_start p \<noteq> 0 then
                  (let p1 = p\<lparr>round_count := round_count p + 1\<rparr>
                   in if round_count p1 \<ge> probe_interval cfg then
                        (let p2 = p1\<lparr>upper_bound := 1,
                                      nominator := 1,
                                      mem_B := B_arr p1 ! unat (best_index p1),
                                      mem_R := R_arr p1 ! unat (best_index p1),
                                      round_count := 0,
                                      round_count_no := 0\<rparr>
                         in bindE (bbr_advance_cycle_phase (set_pmodrl c p2))
                              (\<lambda>c1. Inr (c1\<lparr>ca := (ca c1)\<lparr>cycle_idx := 0,
                                                              mode := BBR_PROBE_BW\<rparr>\<rparr>)))
                      else Inr (set_pmodrl c p1))
                else Inr c))
          else Inr c)"

text \<open>The detector block after \<^verbatim>\<open>memset(bbr->pmodrl, 0, sizeof(struct PMODRL))\<close>.\<close>

definition zero_PMODRL :: PMODRL where
  "zero_PMODRL =
     \<lparr>B_arr = [0, 0, 0, 0, 0, 0, 0, 0, 0], R_arr = [0, 0, 0, 0, 0, 0, 0, 0, 0],
      best_index = 0, classify = 0, classify_time_us = 0, high_loss_flag = 0,
      loss_start_time_us = 0, before_loss_delivered = 0, before_loss_time_us = 0,
      before_loss_lost = 0, bbr_start_us = 0, bef_empty_goodput = 0, nominator = 0,
      latest_ack_us = 0, lastest_ack_loss = 0, detected_bytes_acked = 0, detected_time = 0,
      disable_flag = 0, mem_B = 0, mem_R = 0, probe_rtt_flag = 0, upper_bound = 0,
      round_count = 0, round_count_no = 0, pm_next_rtt_delivered = 0, pm_round_start = 0,
      transfer_start_deliverd = 0, transfer_start_lost = 0, reset_ltbw_flag = 0,
      buffer = None, store_interval = 0, acc_rto_dur = 0, cycle_mstamp = 0,
      dis_loss_start = 0, dis_deliver_start = 0, dis_enable_flag = 0\<rparr>"

text \<open>
  \<^verbatim>\<open>reset_pmodrl\<close>: the block is zeroed, the epoch restarts, and a non-zero \<^verbatim>\<open>classify\<close> is
  replaced by a reason code (\<^verbatim>\<open>res1\<close> for 1, \<^verbatim>\<open>res2\<close> for 2) or kept.
\<close>

definition reset_pmodrl :: "params \<Rightarrow> kernel \<Rightarrow> conn \<Rightarrow> u8 \<Rightarrow> u8 \<Rightarrow> error + conn" where
  "reset_pmodrl cfg k c res1 res2 =
     (case pmodrl (ca c) of
        None \<Rightarrow> Inl NullDeref
      | Some p \<Rightarrow>
          (let flag = (if classify p = 1 then 1
                       else if classify p = 2 then 2
                       else if classify p \<noteq> 0 then (ucast (classify p) :: cint)
                       else 0);
               p1 = zero_PMODRL\<lparr>bbr_start_us := jiffies_to_usecs k (tcp_jiffies32 k),
                                transfer_start_lost := lost (sk c)\<rparr>
           in bindE (if use_goodput cfg \<noteq> 0
                     then (if mss_cache (sk c) = 0 then Inl DivByZero
                           else Inr (p1\<lparr>transfer_start_deliverd :=
                                            snd_una (sk c) div mss_cache (sk c)\<rparr>))
                     else Inr (p1\<lparr>transfer_start_deliverd := delivered (sk c)\<rparr>))
                (\<lambda>p2.
                   (let p3 = p2\<lparr>buffer := buffer p\<rparr>;
                        p4 = (if flag = 1 then p3\<lparr>classify := res1\<rparr>
                              else if flag = 2 then p3\<lparr>classify := res2\<rparr>
                              else if flag \<noteq> 0 then p3\<lparr>classify := ucast flag\<rparr>
                              else p3)
                    in Inr (set_pmodrl c p4)))))"

section \<open>The per-sample handler\<close>

text \<open>Decimal digits of a number, as \<^verbatim>\<open>%u\<close> and \<^verbatim>\<open>%llu\<close> print it.\<close>

function dec :: "nat \<Rightarrow> string" where
  "dec n = (if n < 10 then [char_of (48 + n)] else dec (n div 10) @ [char_of (48 + n mod 10)])"
  by pat_completeness auto
termination
  by (relation "measure (\<lambda>n. n)") auto

text \<open>
  The text \<^verbatim>\<open>snprintf(temp, sizeof(temp), "%llu;%u;%llu;%llu-", ...)\<close> writes; it has at most
  67 characters, fewer than the 90 of \<^verbatim>\<open>temp\<close>.
\<close>

definition history_entry :: "conn \<Rightarrow> PMODRL \<Rightarrow> string" where
  "history_entry c p =
     dec (unat (bytes_acked (sk c))) @ '';'' @ dec (unat (classify p)) @ '';''
       @ dec (unat (B_arr p ! unat (best_index p))) @ '';''
       @ dec (unat (R_arr p ! unat (best_index p))) @ ''-''"

text \<open>
  The first block of \<^verbatim>\<open>bbr_main\<close> under \<^verbatim>\<open>if(bbr->pmodrl)\<close> (lines 1489-1531), in three
  parts: up to the call of \<^verbatim>\<open>estimation_classify\<close>, the loss bookkeeping that follows it,
  and the round detection with the call of \<^verbatim>\<open>probe_pmodrl\<close>.
\<close>

definition track_loss :: "params \<Rightarrow> conn \<Rightarrow> u32 \<Rightarrow> PMODRL \<Rightarrow> error + PMODRL" where
  "track_loss cfg c now_us p =
     bindE
       (if lastest_ack_loss p \<noteq> lost (sk c) then
          Inr (if high_loss_flag p = 0 \<and> loss_start_time_us p = 0
               then p\<lparr>loss_start_time_us := now_us\<rparr> else p)
        else if high_loss_flag p = 0 \<and> loss_start_time_us p = 0 then
          (let p1 = p\<lparr>before_loss_delivered := delivered (sk c) - transfer_start_deliverd p,
                       before_loss_time_us := now_us,
                       before_loss_lost := lost (sk c) - transfer_start_lost p\<rparr>
           in if use_goodput cfg \<noteq> 0
              then (if mss_cache (sk c) = 0 then Inl DivByZero
                    else Inr (p1\<lparr>before_loss_delivered :=
                                     snd_una (sk c) div mss_cache (sk c)
                                       - transfer_start_deliverd p1\<rparr>))
              else Inr p1)
        else Inr p)
       (\<lambda>p2. Inr (p2\<lparr>lastest_ack_loss := lost (sk c)\<rparr>))"

definition detect_round :: "params \<Rightarrow> kernel \<Rightarrow> conn \<Rightarrow> rate_sample \<Rightarrow> error + conn" where
  "detect_round cfg k c rs =
     (case pmodrl (ca c) of
        None \<Rightarrow> Inl NullDeref
      | Some p \<Rightarrow>
          (let c1 = (if classify p = 1 \<and> optimize_flag cfg \<noteq> 0
                     then bbr_reset_lt_bw_sampling c else c);
               p1 = (if write_seq (sk c1) - snd_nxt (sk c1) < mss_cache (sk c1)
                        \<and> (scast (sk_wmem_alloc_get (sk c1)) :: u64) < SKB_TRUESIZE_1 k
                        \<and> tcp_packets_in_flight (sk c1) < snd_cwnd (sk c1)
                        \<and> lost_out (sk c1) \<le> retrans_out (sk c1)
                     then p\<lparr>probe_rtt_flag := 0\<rparr> else p);
               p2 = p1\<lparr>pm_round_start := 0\<rparr>;
               p3 = (if \<not> before (rs_prior_delivered rs) (pm_next_rtt_delivered p2)
                        \<and> \<not> (rs_delivered rs <s 0 \<or> rs_interval_us rs \<le>s 0)
                     then p2\<lparr>pm_next_rtt_delivered := delivered (sk c1), pm_round_start := 1\<rparr>
                     else p2)
           in probe_pmodrl cfg (set_pmodrl c1 p3)))"

definition bbr_main_detector ::
    "params \<Rightarrow> kernel \<Rightarrow> conn \<Rightarrow> rate_sample \<Rightarrow> (error + conn) option" where
  "bbr_main_detector cfg k c rs =
     (case pmodrl (ca c) of
        None \<Rightarrow> Some (Inr c)
      | Some p \<Rightarrow>
          (let now_us = jiffies_to_usecs k (tcp_jiffies32 k);
               p1 = p\<lparr>latest_ack_us := now_us\<rparr>;
               p2 = (if bbr_start_us p1 = 0 then p1\<lparr>bbr_start_us := now_us\<rparr> else p1);
               c1 = set_pmodrl c p2
           in case (if disable_flag p2 = 0 then estimation_classify cfg k c1 else Some (Inr c1)) of
                None \<Rightarrow> None
              | Some (Inl e) \<Rightarrow> Some (Inl e)
              | Some (Inr c2) \<Rightarrow>
                  (case pmodrl (ca c2) of
                     None \<Rightarrow> Some (Inl NullDeref)
                   | Some q \<Rightarrow>
                       Some (bindE (track_loss cfg c2 now_us q)
                               (\<lambda>q1. detect_round cfg k (set_pmodrl c2 q1) rs)))))"

text \<open>
  The second block of \<^verbatim>\<open>bbr_main\<close> under \<^verbatim>\<open>if(bbr->pmodrl)\<close> (lines 1538-1570): the history
  buffer, the three resets, and the division \<^verbatim>\<open>do_div(bw1, rs->interval_us)\<close>, whose divisor
  is the interval converted to \<^verbatim>\<open>u32\<close>. The \<^verbatim>\<open>printk\<close> that follows changes nothing.
\<close>

definition store_history :: "conn \<Rightarrow> PMODRL \<Rightarrow> PMODRL" where
  "store_history c p =
     (let p1 = p\<lparr>store_interval := store_interval p + 1\<rparr>
      in case buffer p1 of
           None \<Rightarrow> p1
         | Some txt \<Rightarrow>
             if store_interval p1 \<ge> STORE_INTERVAL then
               (let p2 = p1\<lparr>store_interval := 0\<rparr>
                in if length txt + 90 < MAX_STR_LEN
                   then p2\<lparr>buffer := Some (txt @ history_entry c p2)\<rparr>
                   else p2)
             else p1)"

definition bbr_main_log :: "params \<Rightarrow> kernel \<Rightarrow> conn \<Rightarrow> rate_sample \<Rightarrow> error + conn" where
  "bbr_main_log cfg k c rs =
     (case pmodrl (ca c) of
        None \<Rightarrow> Inr c
      | Some p \<Rightarrow>
          (let c1 = set_pmodrl c (store_history c p)
           in bindE (if exclude_rwnd cfg \<noteq> 0 \<and> chrono_type (sk c1) = TCP_CHRONO_RWND_LIMITED
                     then reset_pmodrl cfg k c1 5 6 else Inr c1) (\<lambda>c2.
                bindE (if exclude_RTO cfg \<noteq> 0
                          \<and> (ucast (prev_ca_state (ca c2)) :: u8) = TCP_CA_Loss
                          \<and> icsk_ca_state (sk c2) \<noteq> TCP_CA_Loss
                       then reset_pmodrl cfg k c2 7 8 else Inr c2) (\<lambda>c3.
                  bindE (if exclude_applimited cfg \<noteq> 0 \<and> rs_is_app_limited rs
                         then reset_pmodrl cfg k c3 9 10 else Inr c3) (\<lambda>c4.
                    bindE (div_u64 ((scast (rs_delivered rs) :: u64) * scast BW_UNIT)
                             (ucast (rs_interval_us rs)))
                      (\<lambda>bw1. Inr c4))))))"

text \<open>\<^verbatim>\<open>bbr_main\<close>, the handler of a rate sample.\<close>

definition bbr_main :: "params \<Rightarrow> kernel \<Rightarrow> conn \<Rightarrow> rate_sample \<Rightarrow> (error + conn) option" where
  "bbr_main cfg k c rs =
     (case bbr_update_model k c rs of
        Inl e \<Rightarrow> Some (Inl e)
      | Inr c1 \<Rightarrow>
          (case bbr_main_detector cfg k c1 rs of
             None \<Rightarrow> None
           | Some (Inl e) \<Rightarrow> Some (Inl e)
           | Some (Inr c2) \<Rightarrow>
               (let bwv = bbr_bw c2;
                    c3 = bbr_set_pacing_rate cfg c2 bwv (ucast (pacing_gain (ca c2)))
                in Some (bindE (bbr_set_cwnd k c3 rs (rs_acked_sacked rs) bwv
                                  (ucast (cwnd_gain (ca c3))))
                           (\<lambda>c4. bbr_main_log cfg k c4 rs)))))"

section \<open>The other callbacks\<close>


definition bbr_release :: "conn \<Rightarrow> conn" where
  "bbr_release c = c\<lparr>ca := (ca c)\<lparr>pmodrl := None\<rparr>\<rparr>"

definition bbr_sndbuf_expand :: "conn \<Rightarrow> u32" where
  "bbr_sndbuf_expand c = 3"



text \<open>
  \<^verbatim>\<open>bbr_cwnd_event\<close> writes the detector block without a null check (lines 514-519).
\<close>

definition bbr_cwnd_event :: "params \<Rightarrow> kernel \<Rightarrow> conn \<Rightarrow> tcp_ca_event \<Rightarrow> error + conn" where
  "bbr_cwnd_event cfg k c event =
     (let now_us = jiffies_to_usecs k (tcp_jiffies32 k)
      in if event = CA_EVENT_TX_START \<and> app_limited (sk c) \<noteq> 0 then
           (let c1 = c\<lparr>ca := (ca c)\<lparr>idle_restart := True,
                                     ack_epoch_mstamp := tcp_mstamp (sk c),
                                     ack_epoch_acked := 0\<rparr>\<rparr>
            in bindE (if mode (ca c1) = BBR_PROBE_BW
                      then Inr (bbr_set_pacing_rate cfg c1 (bbr_bw c1) BBR_UNIT)
                      else if mode (ca c1) = BBR_PROBE_RTT then bbr_check_probe_rtt_done k c1
                      else Inr c1) (\<lambda>c2.
                 case pmodrl (ca c2) of
                   None \<Rightarrow> Inl NullDeref
                 | Some p \<Rightarrow>
                     (let p1 = p\<lparr>bbr_start_us := now_us,
                                  transfer_start_lost := lost (sk c2),
                                  transfer_start_deliverd := delivered (sk c2)\<rparr>
                      in if use_goodput cfg \<noteq> 0
                         then (if mss_cache (sk c2) = 0 then Inl DivByZero
                               else Inr (set_pmodrl c2
                                           (p1\<lparr>transfer_start_deliverd :=
                                                  snd_una (sk c2) div mss_cache (sk c2)\<rparr>)))
                         else Inr (set_pmodrl c2 p1))))
         else Inr c)"



text \<open>
  \<^verbatim>\<open>bbr_get_info\<close>: the five fields of \<^verbatim>\<open>struct tcp_bbr_info\<close>, or nothing when the request
  \<^verbatim>\<open>ext\<close> asks for neither \<^verbatim>\<open>INET_DIAG_BBRINFO\<close> (16) nor \<^verbatim>\<open>INET_DIAG_VEGASINFO\<close> (3).
\<close>

record tcp_bbr_info =
  bbr_bw_lo :: u32
  bbr_bw_hi :: u32
  bbr_min_rtt :: u32
  bbr_pacing_gain_out :: u32
  bbr_cwnd_gain_out :: u32

definition bbr_get_info :: "conn \<Rightarrow> u32 \<Rightarrow> tcp_bbr_info option" where
  "bbr_get_info c ext =
     (if ext AND push_bit 15 1 \<noteq> 0 \<or> ext AND push_bit 2 1 \<noteq> 0 then
        (let bw0 = drop_bit BW_SCALE
                     ((ucast (bbr_bw c) :: u64) * ucast (mss_cache (sk c)) * USEC_PER_SEC);
             info = \<lparr>bbr_bw_lo = ucast bw0,
                     bbr_bw_hi = ucast (drop_bit 32 bw0),
                     bbr_min_rtt = min_rtt_us (ca c),
                     bbr_pacing_gain_out = ucast (pacing_gain (ca c)),
                     bbr_cwnd_gain_out = ucast (cwnd_gain (ca c))\<rparr>
         in case pmodrl (ca c) of
              None \<Rightarrow> Some info
            | Some p \<Rightarrow>
                if classify p = 1 then
                  Some \<lparr>bbr_bw_lo = ucast (classify p),
                        bbr_bw_hi = detected_time p div 1000,
                        bbr_min_rtt = ucast (detected_bytes_acked p),
                        bbr_pacing_gain_out =
                          ucast (drop_bit BW_SCALE
                                   (B_arr p ! unat (best_index p) * ucast (mss_cache (sk c)) div 1024)),
                        bbr_cwnd_gain_out =
                          ucast (drop_bit BW_SCALE
                                   (R_arr p ! unat (best_index p) * ucast (mss_cache (sk c)) * 1000))\<rparr>
                else
                  Some \<lparr>bbr_bw_lo = ucast (classify p), bbr_bw_hi = 0, bbr_min_rtt = 0,
                        bbr_pacing_gain_out = 0, bbr_cwnd_gain_out = 0\<rparr>)
      else None)"

section \<open>Example states\<close>

text \<open>
  Concrete states for the closed theorems below: a socket with a 1000-byte MSS, a control
  block in STARTUP that has not seen an RTT sample yet, and detector blocks derived from
  the zeroed one.
\<close>

definition example_sock :: sock where
  "example_sock =
     \<lparr>sk_pacing_rate = 0, sk_max_pacing_rate = 0xFFFFFFFFFFFFFFFF,
      sk_pacing_shift = 10, sk_pacing_status = 1, sk_wmem_alloc = 1, icsk_ca_state = 0,
      mss_cache = 1000, srtt_us = 80000, rtt_min = 10000, snd_cwnd = 10,
      snd_cwnd_clamp = 0xFFFFFFFF, snd_ssthresh = 0x7fffffff, delivered = 100, lost = 0,
      snd_una = 100000, snd_nxt = 110000, write_seq = 200000, app_limited = 0,
      packets_out = 10, sacked_out = 0, lost_out = 0, retrans_out = 0,
      tcp_mstamp = 5000000, delivered_mstamp = 5000000, tcp_clock_cache = 5000000000,
      tcp_wstamp_ns = 5000000000, bytes_acked = 100000, chrono_type = 1\<rparr>"

definition example_bbr :: bbr where
  "example_bbr =
     \<lparr>min_rtt_us = 10000, min_rtt_stamp = 1000, probe_rtt_done_stamp = 0,
      bw = \<lparr>mm_s0 = (0, 10000), mm_s1 = (0, 10000), mm_s2 = (0, 10000)\<rparr>,
      rtt_cnt = 0, next_rtt_delivered = 0, mode = BBR_STARTUP, prev_ca_state = 0,
      packet_conservation = False, round_start = False, idle_restart = False,
      probe_rtt_round_done = False, lt_is_sampling = False, lt_rtt_cnt = 0,
      lt_use_bw = False, lt_bw = 0, lt_last_delivered = 0, lt_last_stamp = 0,
      lt_last_lost = 0, pacing_gain = 739, cwnd_gain = 739, full_bw_reached = False,
      full_bw_cnt = 0, cycle_idx = 0, has_seen_rtt = False, prior_cwnd = 0, full_bw = 0,
      ack_epoch_mstamp = 0, extra_acked = (0, 0), ack_epoch_acked = 0,
      extra_acked_win_rtts = 0, extra_acked_win_idx = False, pmodrl = None\<rparr>"

definition example_kernel :: kernel where
  "example_kernel =
     \<lparr>tcp_jiffies32 = 2000, HZ = 1000, jiffies_to_usecs = (\<lambda>j. 1000 * j),
      msecs_to_jiffies = (\<lambda>m. ucast m), prandom_u32 = 0, SKB_TRUESIZE_1 = 577,
      MAX_TCP_HEADER = 320, kmalloc_pmodrl_ok = True, kmalloc_buffer_ok = True\<rparr>"

text \<open>A detector that has classified the path and caps the rate at \<open>R_arr[1]\<close>.\<close>

definition capped_PMODRL :: PMODRL where
  "capped_PMODRL =
     zero_PMODRL\<lparr>classify := 1, upper_bound := 1, best_index := 1,
       R_arr := [0, 16777, 0, 0, 0, 0, 0, 0, 0]\<rparr>"

definition capped_conn :: conn where
  "capped_conn = \<lparr>sk = example_sock, ca = example_bbr\<lparr>pmodrl := Some capped_PMODRL\<rparr>\<rparr>"

text \<open>The same connection once the pipe has been estimated full.\<close>

definition full_capped_conn :: conn where
  "full_capped_conn = capped_conn\<lparr>ca := (ca capped_conn)\<lparr>full_bw_reached := True\<rparr>\<rparr>"

text \<open>
  The capped connection after an RTT sample has been seen: the socket holds the pacing rate
  of an earlier call, and the bandwidth filter holds 5000.
\<close>

definition seen_rtt_conn :: conn where
  "seen_rtt_conn =
     \<lparr>sk = example_sock\<lparr>sk_pacing_rate := 2857814\<rparr>,
      ca = example_bbr\<lparr>has_seen_rtt := True,
             bw := \<lparr>mm_s0 = (0, 5000), mm_s1 = (0, 5000), mm_s2 = (0, 5000)\<rparr>,
             pmodrl := Some capped_PMODRL\<rparr>\<rparr>"

text \<open>
  A connection whose detector block could not be allocated, idle and application-limited,
  and the same connection in PROBE_BW.
\<close>

definition idle_conn :: conn where
  "idle_conn = \<lparr>sk = example_sock\<lparr>app_limited := 1\<rparr>, ca = example_bbr\<rparr>"

definition probe_bw_conn :: conn where
  "probe_bw_conn = \<lparr>sk = example_sock, ca = example_bbr\<lparr>mode := BBR_PROBE_BW\<rparr>\<rparr>"

text \<open>A valid rate sample: 2 packets delivered over 1000 microseconds, no loss.\<close>

definition example_sample :: rate_sample where
  "example_sample =
     \<lparr>rs_prior_delivered = 98, rs_delivered = 2, rs_interval_us = 1000, rs_rtt_us = 12000,
      rs_losses = 0, rs_acked_sacked = 2, rs_prior_in_flight = 10, rs_is_app_limited = False,
      rs_is_ack_delayed = False\<rparr>"

text \<open>A capped detector one round short of its next probe.\<close>

definition due_PMODRL :: PMODRL where
  "due_PMODRL =
     capped_PMODRL\<lparr>round_count := 19, B_arr := [0, 5, 0, 0, 0, 0, 0, 0, 0],
                     cycle_mstamp := 7\<rparr>"

definition due_conn :: conn where
  "due_conn = \<lparr>sk = example_sock, ca = example_bbr\<lparr>pmodrl := Some due_PMODRL\<rparr>\<rparr>"


section \<open>Predicates of the properties\<close>

text \<open>The detector block a block of \<^verbatim>\<open>estimation_classify\<close> hands on, returning or not.\<close>

fun ctl_val :: "'a ctl \<Rightarrow> 'a" where
  "ctl_val (Return a) = a"
| "ctl_val (Next a) = a"

text \<open>
  \<open>grid_frame p p'\<close>: the block \<open>p'\<close> differs from \<open>p\<close> at most in the candidate grid, the
  high-loss flag, the goodput before the bucket emptied and the start of the loss episode.
\<close>

definition grid_frame :: "PMODRL \<Rightarrow> PMODRL \<Rightarrow> bool" where
  "grid_frame p p' =
     (p' = p\<lparr>B_arr := B_arr p', R_arr := R_arr p', high_loss_flag := high_loss_flag p',
             bef_empty_goodput := bef_empty_goodput p',
             loss_start_time_us := loss_start_time_us p'\<rparr>)"

text \<open>
  Detectors in a loss episode: 60 packets were delivered before the loss began, 100 are
  delivered now. In the first the episode began exactly \<open>7 * min_rtt_us\<close> before the
  current time 2000000; in the second and third it began long before.
\<close>

definition episode_PMODRL :: PMODRL where
  "episode_PMODRL =
     zero_PMODRL\<lparr>loss_start_time_us := 1000000, before_loss_delivered := 60,
       before_loss_time_us := 900000, bbr_start_us := 500000\<rparr>"

definition boundary_time_conn :: conn where
  "boundary_time_conn =
     \<lparr>sk = example_sock\<lparr>lost := 40\<rparr>,
      ca = example_bbr\<lparr>pmodrl := Some (episode_PMODRL\<lparr>loss_start_time_us := 1930000\<rparr>)\<rparr>\<rparr>"

definition boundary_loss_conn :: conn where
  "boundary_loss_conn =
     \<lparr>sk = example_sock\<lparr>lost := 10\<rparr>, ca = example_bbr\<lparr>pmodrl := Some episode_PMODRL\<rparr>\<rparr>"

definition lossy_conn :: conn where
  "lossy_conn =
     \<lparr>sk = example_sock\<lparr>lost := 40\<rparr>, ca = example_bbr\<lparr>pmodrl := Some episode_PMODRL\<rparr>\<rparr>"

text \<open>
  \<open>class_frame q p'\<close>: the block \<open>p'\<close> differs from \<open>q\<close> at most in the fields the
  classification writes.
\<close>

definition class_frame :: "PMODRL \<Rightarrow> PMODRL \<Rightarrow> bool" where
  "class_frame q p' =
     (p' = q\<lparr>classify := classify p', disable_flag := disable_flag p',
             classify_time_us := classify_time_us p', reset_ltbw_flag := reset_ltbw_flag p',
             mem_B := mem_B p', mem_R := mem_R p', upper_bound := upper_bound p',
             detected_time := detected_time p',
             detected_bytes_acked := detected_bytes_acked p'\<rparr>)"

text \<open>\<open>arrays_frame p p'\<close>: the block \<open>p'\<close> differs from \<open>p\<close> at most in the two arrays.\<close>

definition arrays_frame :: "PMODRL \<Rightarrow> PMODRL \<Rightarrow> bool" where
  "arrays_frame p p' = (p' = p\<lparr>B_arr := B_arr p', R_arr := R_arr p'\<rparr>)"


text \<open>
  The verdict of the detector as the rest of the module sees it: \<open>classify\<close>,
  \<open>disable_flag\<close> and the one-shot flag \<open>reset_ltbw_flag\<close> of the connection's detector
  block, \<open>None\<close> when there is no block; and the one-shot flag alone.
\<close>

definition detector_flags :: "conn \<Rightarrow> (u8 \<times> u8 \<times> u8) option" where
  "detector_flags c =
     map_option (\<lambda>p. (classify p, disable_flag p, reset_ltbw_flag p)) (pmodrl (ca c))"







text \<open>The mode of the state machine with the two gains it selects.\<close>

definition gain_state :: "conn \<Rightarrow> bbr_mode \<times> 10 word \<times> 10 word" where
  "gain_state c = (mode (ca c), pacing_gain (ca c), cwnd_gain (ca c))"

text \<open>
  A connection in PROBE_RTT with a window of 40 packets and a fresh detector block, and the
  state \<^verbatim>\<open>bbr_main\<close> leaves it in on the sample \<open>example_sample\<close>.
\<close>

definition probe_rtt_conn :: conn where
  "probe_rtt_conn =
     \<lparr>sk = example_sock\<lparr>snd_cwnd := 40\<rparr>,
      ca = example_bbr\<lparr>mode := BBR_PROBE_RTT, pmodrl := Some zero_PMODRL\<rparr>\<rparr>"

definition probe_rtt_result :: conn where
  "probe_rtt_result =
     \<lparr>sk = example_sock\<lparr>sk_pacing_rate := 11431259, snd_cwnd := 4, app_limited := 110\<rparr>,
      ca = example_bbr
             \<lparr>bw := \<lparr>mm_s0 = (1, 33554), mm_s1 = (1, 33554), mm_s2 = (1, 33554)\<rparr>,
               rtt_cnt := 1, next_rtt_delivered := 100, mode := BBR_PROBE_RTT,
               round_start := True, pacing_gain := 256, cwnd_gain := 256,
               has_seen_rtt := True, full_bw := 33554, ack_epoch_mstamp := 5000000,
               extra_acked := (2, 0), ack_epoch_acked := 2, extra_acked_win_rtts := 1,
               pmodrl := Some (zero_PMODRL
                                 \<lparr>before_loss_delivered := 100, before_loss_time_us := 2000000,
                                   bbr_start_us := 2000000, latest_ack_us := 2000000,
                                   probe_rtt_flag := 1, pm_next_rtt_delivered := 100,
                                   pm_round_start := 1, store_interval := 1\<rparr>)\<rparr>\<rparr>"

section \<open>Properties\<close>

subsection \<open>The pacing rate\<close>

lemma bbr_bw_to_pacing_rate_le_max:
  "bbr_bw_to_pacing_rate c bwv gain \<le> sk_max_pacing_rate (sk c)"
  by (simp add: bbr_bw_to_pacing_rate_def Let_def)

lemma bbr_bw_to_pacing_rate_pmodrl_le_max:
  "bbr_bw_to_pacing_rate_pmodrl cfg c bwv gain nom \<le> sk_max_pacing_rate (sk c)"
  by (simp add: bbr_bw_to_pacing_rate_pmodrl_def Let_def)

lemma bbr_init_pacing_rate_from_rtt_le_max:
  "sk_pacing_rate (sk (bbr_init_pacing_rate_from_rtt c)) \<le> sk_max_pacing_rate (sk c)"
  by (simp add: bbr_init_pacing_rate_from_rtt_def Let_def bbr_bw_to_pacing_rate_def
      split: prod.splits if_splits)

lemma bbr_init_pacing_rate_from_rtt_frame:
  "pmodrl (ca (bbr_init_pacing_rate_from_rtt c)) = pmodrl (ca c)"
  "full_bw_reached (ca (bbr_init_pacing_rate_from_rtt c)) = full_bw_reached (ca c)"
  "sk_max_pacing_rate (sk (bbr_init_pacing_rate_from_rtt c)) = sk_max_pacing_rate (sk c)"
  by (simp_all add: bbr_init_pacing_rate_from_rtt_def Let_def split: prod.splits)

lemma bbr_bw_to_pacing_rate_pmodrl_no_probe:
  "bbr_bw_to_pacing_rate_pmodrl cfg c bwv gain 0 = bbr_bw_to_pacing_rate c bwv gain"
  by (simp add: bbr_bw_to_pacing_rate_pmodrl_def bbr_bw_to_pacing_rate_def split: option.splits)

text \<open>
  C10. Every pacing rate the module computes and stores is at most the socket's
  \<^verbatim>\<open>sk_max_pacing_rate\<close>: both converters return at most that bound, and after
  \<^verbatim>\<open>bbr_set_pacing_rate\<close> the socket's pacing rate is either the value it had before the call
  or at most the bound, whatever the bandwidth, the gain and the detector state are.
\<close>

theorem C10_pacing_rate_at_most_max:
  "bbr_bw_to_pacing_rate c bwv gain \<le> sk_max_pacing_rate (sk c)
   \<and> bbr_bw_to_pacing_rate_pmodrl cfg c bwv gain nom \<le> sk_max_pacing_rate (sk c)
   \<and> (sk_pacing_rate (sk (bbr_set_pacing_rate cfg c bwv gain)) = sk_pacing_rate (sk c)
      \<or> sk_pacing_rate (sk (bbr_set_pacing_rate cfg c bwv gain)) \<le> sk_max_pacing_rate (sk c))"
proof -
  have "sk_pacing_rate (sk (bbr_set_pacing_rate cfg c bwv gain)) = sk_pacing_rate (sk c)
      \<or> sk_pacing_rate (sk (bbr_set_pacing_rate cfg c bwv gain)) \<le> sk_max_pacing_rate (sk c)"
    using bbr_bw_to_pacing_rate_le_max [of c bwv gain]
      bbr_bw_to_pacing_rate_pmodrl_le_max [of cfg c]
      bbr_init_pacing_rate_from_rtt_le_max [of c]
    by (auto simp add: bbr_set_pacing_rate_def Let_def split: prod.splits option.splits if_splits)
  then show ?thesis
    by (simp add: bbr_bw_to_pacing_rate_le_max bbr_bw_to_pacing_rate_pmodrl_le_max)
qed

text \<open>
  C1, as stated, fails. In both states the detector has classified the path
  (\<open>classify = 1\<close>), the cap is active and not probing, \<^verbatim>\<open>optimize_flag\<close> is on, the pipe is
  not yet estimated full, and the cap rate is 989987. In \<open>capped_conn\<close> no RTT sample has
  been seen: the BBR rate 590085 is below the cap, so the cap does not apply, and
  \<^verbatim>\<open>bbr_set_pacing_rate\<close> leaves in the socket the rate 2857814 that
  \<^verbatim>\<open>bbr_init_pacing_rate_from_rtt\<close> has just stored. In \<open>seen_rtt_conn\<close> an RTT sample has
  been seen and the socket holds 2857814 from an earlier call: with the bandwidth
  \<^verbatim>\<open>bbr_bw(sk)\<close> and the gain \<^verbatim>\<open>bbr->pacing_gain\<close> that \<^verbatim>\<open>bbr_main\<close> passes, the BBR rate is
  851706, below the cap and below the socket's rate, and the socket keeps 2857814.
\<close>

theorem C1_counterexample:
  "pmodrl (ca capped_conn) = Some capped_PMODRL
   \<and> classify capped_PMODRL = 1 \<and> optimize_flag default_params \<noteq> 0
   \<and> upper_bound capped_PMODRL = 1 \<and> nominator capped_PMODRL = 0
   \<and> bbr_bw_to_pacing_rate capped_conn
        (ucast (R_arr capped_PMODRL ! unat (best_index capped_PMODRL))) BBR_UNIT = 989987
   \<and> sk_pacing_rate (sk (bbr_set_pacing_rate default_params capped_conn 10000 BBR_UNIT))
        = 2857814
   \<and> pmodrl (ca seen_rtt_conn) = Some capped_PMODRL
   \<and> has_seen_rtt (ca seen_rtt_conn)
   \<and> bbr_bw_to_pacing_rate seen_rtt_conn
        (ucast (R_arr capped_PMODRL ! unat (best_index capped_PMODRL))) BBR_UNIT = 989987
   \<and> bbr_bw_to_pacing_rate seen_rtt_conn (bbr_bw seen_rtt_conn)
        (ucast (pacing_gain (ca seen_rtt_conn))) = 851706
   \<and> sk_pacing_rate (sk (bbr_set_pacing_rate default_params seen_rtt_conn
                            (bbr_bw seen_rtt_conn) (ucast (pacing_gain (ca seen_rtt_conn)))))
        = 2857814"
  by (simp add: bbr_set_pacing_rate_def bbr_bw_to_pacing_rate_pmodrl_def
      bbr_init_pacing_rate_from_rtt_def bbr_full_bw_reached_def bbr_bw_to_pacing_rate_def
      bbr_rate_bytes_per_sec_def capped_conn_def capped_PMODRL_def zero_PMODRL_def
      seen_rtt_conn_def bbr_bw_def bbr_max_bw_def minmax_get_def
      example_sock_def example_bbr_def default_params_def BBR_UNIT_def BBR_SCALE_def
      BW_UNIT_def BW_SCALE_def USEC_PER_SEC_def USEC_PER_MSEC_def bbr_pacing_margin_percent_def
      bbr_high_gain_def Let_def)

text \<open>
  C1, amended. Let \<open>rate\<close> be the BBR rate of the given bandwidth at the given gain, \<open>cap\<close>
  the rate of \<open>R_arr[best_index]\<close> (as the \<^verbatim>\<open>u32\<close> the converter takes) at gain \<^verbatim>\<open>BBR_UNIT\<close>,
  and \<open>old\<close> the rate in the socket when the BBR guard of line 409 is tested: the rate
  \<^verbatim>\<open>bbr_init_pacing_rate_from_rtt\<close> stores if this is the first call with an RTT sample,
  otherwise the rate before the call. With \<open>classify = 1\<close>, \<^verbatim>\<open>optimize_flag\<close> on,
  \<open>upper_bound = 1\<close> and \<open>nominator = 0\<close>: if the pipe has been estimated full, or
  \<open>rate > cap\<close>, or \<open>rate > old\<close>, the pacing rate in the socket after
  \<^verbatim>\<open>bbr_set_pacing_rate\<close> is the smaller of \<open>rate\<close> and \<open>cap\<close>, hence at most \<open>cap\<close>.
  Otherwise the call stores nothing and the socket keeps \<open>old\<close>.
\<close>

theorem C1_capped_unless_guard_keeps_rate:
  assumes "pmodrl (ca c) = Some p" and "classify p = 1" and "optimize_flag cfg \<noteq> 0"
    and "upper_bound p = 1" and "nominator p = 0"
    and "rate = bbr_bw_to_pacing_rate c bwv gain"
    and "cap = bbr_bw_to_pacing_rate_pmodrl cfg c (ucast (R_arr p ! unat (best_index p)))
                 BBR_UNIT (nominator p)"
    and "old = sk_pacing_rate (sk (if \<not> has_seen_rtt (ca c) \<and> srtt_us (sk c) \<noteq> 0
                                    then bbr_init_pacing_rate_from_rtt c else c))"
  shows "cap = bbr_bw_to_pacing_rate c (ucast (R_arr p ! unat (best_index p))) BBR_UNIT
         \<and> sk_pacing_rate (sk (bbr_set_pacing_rate cfg c bwv gain))
             = (if full_bw_reached (ca c) \<or> cap < rate \<or> old < rate then min rate cap else old)
         \<and> (full_bw_reached (ca c) \<or> cap < rate \<or> old < rate
              \<longrightarrow> sk_pacing_rate (sk (bbr_set_pacing_rate cfg c bwv gain)) \<le> cap)"
proof -
  have cap: "cap = bbr_bw_to_pacing_rate c (ucast (R_arr p ! unat (best_index p))) BBR_UNIT"
    using assms(5) assms(7) by (simp add: bbr_bw_to_pacing_rate_pmodrl_no_probe)
  have eq: "sk_pacing_rate (sk (bbr_set_pacing_rate cfg c bwv gain))
             = (if full_bw_reached (ca c) \<or> cap < rate \<or> old < rate then min rate cap else old)"
    using assms
    by (auto simp add: bbr_set_pacing_rate_def Let_def
        bbr_init_pacing_rate_from_rtt_frame bbr_full_bw_reached_def
        split: prod.splits option.splits if_splits)
  from cap eq show ?thesis by auto
qed

theorem C1_capped_unless_guard_keeps_rate_witness:
  "sk_pacing_rate (sk (bbr_set_pacing_rate default_params capped_conn 20000 BBR_UNIT)) = 989987
   \<and> sk_pacing_rate (sk (bbr_set_pacing_rate default_params full_capped_conn 10000 BBR_UNIT))
       = 590085"
proof -
  have cap: "bbr_bw_to_pacing_rate_pmodrl default_params capped_conn
               (ucast (R_arr capped_PMODRL ! unat (best_index capped_PMODRL))) BBR_UNIT
               (nominator capped_PMODRL) = 989987"
    "bbr_bw_to_pacing_rate_pmodrl default_params full_capped_conn
               (ucast (R_arr capped_PMODRL ! unat (best_index capped_PMODRL))) BBR_UNIT
               (nominator capped_PMODRL) = 989987"
    by (simp_all add: bbr_bw_to_pacing_rate_pmodrl_def bbr_rate_bytes_per_sec_def
        full_capped_conn_def
        capped_conn_def capped_PMODRL_def zero_PMODRL_def example_sock_def example_bbr_def
        BBR_UNIT_def BBR_SCALE_def BW_SCALE_def USEC_PER_SEC_def bbr_pacing_margin_percent_def
        Let_def)
  have rate: "bbr_bw_to_pacing_rate capped_conn 20000 BBR_UNIT = 1180171"
    "bbr_bw_to_pacing_rate full_capped_conn 10000 BBR_UNIT = 590085"
    by (simp_all add: bbr_bw_to_pacing_rate_def bbr_rate_bytes_per_sec_def full_capped_conn_def
        capped_conn_def example_sock_def example_bbr_def BBR_UNIT_def BBR_SCALE_def
        BW_SCALE_def USEC_PER_SEC_def bbr_pacing_margin_percent_def Let_def)
  have h: "pmodrl (ca capped_conn) = Some capped_PMODRL" "classify capped_PMODRL = 1"
    "optimize_flag default_params \<noteq> 0" "upper_bound capped_PMODRL = 1"
    "nominator capped_PMODRL = 0"
    by (simp_all add: capped_conn_def capped_PMODRL_def zero_PMODRL_def default_params_def)
  have h': "pmodrl (ca full_capped_conn) = Some capped_PMODRL"
    "full_bw_reached (ca full_capped_conn)"
    by (simp_all add: full_capped_conn_def capped_conn_def)
  from C1_capped_unless_guard_keeps_rate [OF h refl refl refl, of 20000 BBR_UNIT] cap rate
  have 1: "sk_pacing_rate (sk (bbr_set_pacing_rate default_params capped_conn 20000 BBR_UNIT))
             = 989987"
    by simp
  from C1_capped_unless_guard_keeps_rate
         [OF h'(1) h(2) h(3) h(4) h(5) refl refl refl, of 10000 BBR_UNIT] cap rate h'(2)
  have 2: "sk_pacing_rate (sk (bbr_set_pacing_rate default_params full_capped_conn 10000 BBR_UNIT))
             = 590085"
    by simp
  from 1 2 show ?thesis by simp
qed

subsection \<open>Operation without a detector block\<close>

lemma bbr_set_pacing_rate_pmodrl:
  "pmodrl (ca (bbr_set_pacing_rate cfg c bwv gain)) = pmodrl (ca c)"
  by (simp add: bbr_set_pacing_rate_def Let_def bbr_init_pacing_rate_from_rtt_frame
      split: prod.splits option.splits)

lemma bbr_advance_cycle_phase_without_detector:
  "pmodrl (ca c) = None \<Longrightarrow> bbr_advance_cycle_phase c = Inl NullDeref"
  by (simp add: bbr_advance_cycle_phase_def Let_def)

lemma bbr_check_probe_rtt_done_without_detector:
  "pmodrl (ca c) = None \<Longrightarrow>
     bbr_check_probe_rtt_done k c = Inl NullDeref
     \<or> (\<exists>c'. bbr_check_probe_rtt_done k c = Inr c' \<and> pmodrl (ca c') = None)"
  by (auto simp add: bbr_check_probe_rtt_done_def bbr_reset_mode_def bbr_reset_startup_mode_def
      bbr_reset_probe_bw_mode_def bbr_advance_cycle_phase_without_detector)

lemma bbr_cwnd_event_without_detector:
  assumes "pmodrl (ca c) = None" and "app_limited (sk c) \<noteq> 0"
  shows "bbr_cwnd_event cfg k c CA_EVENT_TX_START = Inl NullDeref"
proof -
  let ?c1 = "c\<lparr>ca := (ca c)\<lparr>idle_restart := True, ack_epoch_mstamp := tcp_mstamp (sk c),
                             ack_epoch_acked := 0\<rparr>\<rparr>"
  have n: "pmodrl (ca ?c1) = None" using assms by simp
  from bbr_check_probe_rtt_done_without_detector [OF n, of k]
  show ?thesis using assms
    by (auto simp add: bbr_cwnd_event_def Let_def bindE_def bbr_set_pacing_rate_pmodrl)
qed

lemma bbr_update_cycle_phase_without_detector:
  "pmodrl (ca c) = None \<Longrightarrow> mode (ca c) = BBR_PROBE_BW \<Longrightarrow>
     bbr_update_cycle_phase k c rs = Inl NullDeref"
  by (simp add: bbr_update_cycle_phase_def bbr_is_next_cycle_phase_def bindE_def)

text \<open>
  C5. The code does not guard every use of the detector block. With \<open>pmodrl\<close> null, the
  cwnd-event callback on \<^verbatim>\<open>CA_EVENT_TX_START\<close> for an application-limited connection
  dereferences the null pointer (lines 514-519), and so does the cycle-phase update of a
  connection in PROBE_BW (\<^verbatim>\<open>bbr_is_next_cycle_phase\<close>, line 739).
\<close>

theorem C5_null_detector_is_dereferenced:
  "pmodrl (ca idle_conn) = None
   \<and> bbr_cwnd_event default_params example_kernel idle_conn CA_EVENT_TX_START = Inl NullDeref
   \<and> pmodrl (ca probe_bw_conn) = None
   \<and> bbr_update_cycle_phase example_kernel probe_bw_conn example_sample = Inl NullDeref"
proof -
  have a: "pmodrl (ca idle_conn) = None" "app_limited (sk idle_conn) \<noteq> 0"
    by (simp_all add: idle_conn_def example_bbr_def example_sock_def)
  have b: "pmodrl (ca probe_bw_conn) = None" "mode (ca probe_bw_conn) = BBR_PROBE_BW"
    by (simp_all add: probe_bw_conn_def example_bbr_def)
  show ?thesis
    using a(1) b(1) bbr_cwnd_event_without_detector [OF a]
      bbr_update_cycle_phase_without_detector [OF b]
    by simp
qed

subsection \<open>The probe schedule\<close>

lemma bbr_advance_cycle_phase_with_detector:
  "pmodrl (ca c) = Some p \<Longrightarrow>
     bbr_advance_cycle_phase c =
       Inr (c\<lparr>ca := (ca c)\<lparr>cycle_idx := (cycle_idx (ca c) + 1) AND ucast (CYCLE_LEN - 1),
                             pmodrl := Some (p\<lparr>cycle_mstamp := delivered_mstamp (sk c)\<rparr>)\<rparr>\<rparr>)"
  by (simp add: bbr_advance_cycle_phase_def Let_def)

lemma probe_pmodrl_capped:
  assumes "pmodrl (ca c) = Some p" and "classify p = 1" and "optimize_flag cfg \<noteq> 0"
    and "upper_bound p = 1" and "nominator p = 0"
  shows "probe_pmodrl cfg c =
           (if pm_round_start p = 0 then Inr c
            else if round_count p + 1 \<ge> probe_interval cfg then
              Inr (c\<lparr>ca := (ca c)\<lparr>cycle_idx := 0, mode := BBR_PROBE_BW,
                     pmodrl := Some (p\<lparr>round_count := 0, upper_bound := 1, nominator := 1,
                                       mem_B := B_arr p ! unat (best_index p),
                                       mem_R := R_arr p ! unat (best_index p),
                                       round_count_no := 0,
                                       cycle_mstamp := delivered_mstamp (sk c)\<rparr>)\<rparr>\<rparr>)
            else Inr (set_pmodrl c (p\<lparr>round_count := round_count p + 1\<rparr>)))"
  using assms
  by (simp add: probe_pmodrl_def Let_def bindE_def set_pmodrl_def
      bbr_advance_cycle_phase_with_detector)

lemma probe_pmodrl_no_round:
  assumes "pmodrl (ca c) = Some p" and "pm_round_start p = 0"
  shows "\<exists>c' p'. probe_pmodrl cfg c = Inr c' \<and> pmodrl (ca c') = Some p'
           \<and> round_count p' = round_count p"
  using assms
  by (simp add: probe_pmodrl_def Let_def set_pmodrl_def)

lemma detect_round_not_counted:
  assumes "pmodrl (ca c) = Some p"
    and "before (rs_prior_delivered rs) (pm_next_rtt_delivered p)
         \<or> rs_delivered rs <s 0 \<or> rs_interval_us rs \<le>s 0"
  shows "\<exists>c' p'. detect_round cfg k c rs = Inr c' \<and> pmodrl (ca c') = Some p'
           \<and> round_count p' = round_count p"
proof -
  define c1 where "c1 = (if classify p = 1 \<and> optimize_flag cfg \<noteq> 0
                     then bbr_reset_lt_bw_sampling c else c)"
  define p1 where "p1 =
    (if write_seq (sk c1) - snd_nxt (sk c1) < mss_cache (sk c1)
        \<and> (scast (sk_wmem_alloc_get (sk c1)) :: u64) < SKB_TRUESIZE_1 k
        \<and> tcp_packets_in_flight (sk c1) < snd_cwnd (sk c1)
        \<and> lost_out (sk c1) \<le> retrans_out (sk c1)
     then p\<lparr>probe_rtt_flag := 0\<rparr> else p)"
  define p3 where "p3 =
    (if \<not> before (rs_prior_delivered rs) (pm_next_rtt_delivered p)
        \<and> \<not> (rs_delivered rs <s 0 \<or> rs_interval_us rs \<le>s 0)
     then p1\<lparr>pm_next_rtt_delivered := delivered (sk c1), pm_round_start := 1\<rparr>
     else p1\<lparr>pm_round_start := 0\<rparr>)"
  have step: "detect_round cfg k c rs = probe_pmodrl cfg (set_pmodrl c1 p3)"
    using assms(1) by (simp add: detect_round_def Let_def c1_def p1_def p3_def)
  have a: "pmodrl (ca (set_pmodrl c1 p3)) = Some p3"
    by (simp add: set_pmodrl_def)
  have b: "pm_round_start p3 = 0" "round_count p3 = round_count p"
    using assms(2) by (auto simp add: p3_def p1_def)
  from probe_pmodrl_no_round [OF a b(1), of cfg] b(2) show ?thesis
    unfolding step by simp
qed

text \<open>
  C2. While the detector has classified the path, \<^verbatim>\<open>optimize_flag\<close> is on and the cap is
  active and not probing, the round detection of \<^verbatim>\<open>bbr_main\<close> with \<^verbatim>\<open>probe_pmodrl\<close> counts
  each new round once in \<open>round_count\<close>, in PROBE_BW as in every other mode. A sample is
  the first of a new round when it is valid and its \<^verbatim>\<open>prior_delivered\<close> is not before the
  marker \<open>next_rtt_delivered\<close> of the detector; outside a new round nothing of the schedule
  changes and the marker stays. A new round moves the marker to the transport's
  \<^verbatim>\<open>delivered\<close> counter, so that a later sample sent before that point, whatever the socket
  holds by then, leaves \<open>round_count\<close> as it is. When the incremented count reaches
  \<^verbatim>\<open>probe_interval\<close>, the controller sets \<open>nominator = 1\<close>, puts the gain cycle at phase 0
  (restarting the phase clock \<open>cycle_mstamp\<close>), records \<open>(B_arr[best_index],
  R_arr[best_index])\<close> in \<open>(mem_B, mem_R)\<close>, resets \<open>round_count\<close> and \<open>round_count_no\<close>, and
  sets the mode to PROBE_BW; \<open>classify\<close> stays 1 throughout.
\<close>

theorem C2_probe_after_probe_interval_rounds:
  assumes "pmodrl (ca c) = Some p" and "classify p = 1" and "optimize_flag cfg \<noteq> 0"
    and "upper_bound p = 1" and "nominator p = 0"
  shows "\<exists>c' p'. detect_round cfg k c rs = Inr c' \<and> pmodrl (ca c') = Some p'
           \<and> classify p' = 1
           \<and> (if before (rs_prior_delivered rs) (pm_next_rtt_delivered p)
                  \<or> rs_delivered rs <s 0 \<or> rs_interval_us rs \<le>s 0
               then round_count p' = round_count p \<and> round_count_no p' = round_count_no p
                    \<and> nominator p' = 0 \<and> upper_bound p' = 1
                    \<and> mem_B p' = mem_B p \<and> mem_R p' = mem_R p
                    \<and> mode (ca c') = mode (ca c) \<and> cycle_idx (ca c') = cycle_idx (ca c)
                    \<and> pm_next_rtt_delivered p' = pm_next_rtt_delivered p
               else pm_next_rtt_delivered p' = delivered (sk c)
                    \<and> (\<forall>c2 rs2. ca c2 = ca c'
                           \<and> before (rs_prior_delivered rs2) (delivered (sk c))
                         \<longrightarrow> (\<exists>c3 p3. detect_round cfg k c2 rs2 = Inr c3
                                  \<and> pmodrl (ca c3) = Some p3
                                  \<and> round_count p3 = round_count p'))
                    \<and> (if round_count p + 1 \<ge> probe_interval cfg
                        then nominator p' = 1 \<and> upper_bound p' = 1 \<and> cycle_idx (ca c') = 0
                             \<and> mem_B p' = B_arr p ! unat (best_index p)
                             \<and> mem_R p' = R_arr p ! unat (best_index p)
                             \<and> round_count p' = 0 \<and> round_count_no p' = 0
                             \<and> mode (ca c') = BBR_PROBE_BW
                             \<and> cycle_mstamp p' = delivered_mstamp (sk c)
                        else round_count p' = round_count p + 1
                             \<and> round_count_no p' = round_count_no p
                             \<and> nominator p' = 0 \<and> upper_bound p' = 1
                             \<and> mem_B p' = mem_B p \<and> mem_R p' = mem_R p
                             \<and> mode (ca c') = mode (ca c)
                             \<and> cycle_idx (ca c') = cycle_idx (ca c)))"
proof -
  define c1 where "c1 = bbr_reset_lt_bw_sampling c"
  define p1 where "p1 =
    (if write_seq (sk c1) - snd_nxt (sk c1) < mss_cache (sk c1)
        \<and> (scast (sk_wmem_alloc_get (sk c1)) :: u64) < SKB_TRUESIZE_1 k
        \<and> tcp_packets_in_flight (sk c1) < snd_cwnd (sk c1)
        \<and> lost_out (sk c1) \<le> retrans_out (sk c1)
     then p\<lparr>probe_rtt_flag := 0\<rparr> else p)"
  define p3 where "p3 =
    (if \<not> before (rs_prior_delivered rs) (pm_next_rtt_delivered p)
        \<and> \<not> (rs_delivered rs <s 0 \<or> rs_interval_us rs \<le>s 0)
     then p1\<lparr>pm_next_rtt_delivered := delivered (sk c1), pm_round_start := 1\<rparr>
     else p1\<lparr>pm_round_start := 0\<rparr>)"
  have step: "detect_round cfg k c rs = probe_pmodrl cfg (set_pmodrl c1 p3)"
    using assms by (simp add: detect_round_def Let_def c1_def p1_def p3_def)
  have frame: "mode (ca (set_pmodrl c1 p3)) = mode (ca c)"
    "cycle_idx (ca (set_pmodrl c1 p3)) = cycle_idx (ca c)"
    "sk (set_pmodrl c1 p3) = sk c"
    by (simp_all add: set_pmodrl_def c1_def bbr_reset_lt_bw_sampling_def
        bbr_reset_lt_bw_sampling_interval_def)
  have p3: "pmodrl (ca (set_pmodrl c1 p3)) = Some p3" "classify p3 = 1" "upper_bound p3 = 1"
    "nominator p3 = 0" "round_count p3 = round_count p" "round_count_no p3 = round_count_no p"
    "mem_B p3 = mem_B p" "mem_R p3 = mem_R p" "B_arr p3 = B_arr p" "R_arr p3 = R_arr p"
    "best_index p3 = best_index p"
    using assms by (simp_all add: set_pmodrl_def p3_def p1_def)
  have rs: "pm_round_start p3 = 0 \<longleftrightarrow>
      (before (rs_prior_delivered rs) (pm_next_rtt_delivered p)
       \<or> rs_delivered rs <s 0 \<or> rs_interval_us rs \<le>s 0)"
    by (auto simp add: p3_def)
  have mk: "pm_next_rtt_delivered p3 =
      (if before (rs_prior_delivered rs) (pm_next_rtt_delivered p)
          \<or> rs_delivered rs <s 0 \<or> rs_interval_us rs \<le>s 0
       then pm_next_rtt_delivered p else delivered (sk c))"
    using frame(3) by (auto simp add: p3_def p1_def set_pmodrl_def)
  have once: "\<exists>c3 q3. detect_round cfg k c2 rs2 = Inr c3 \<and> pmodrl (ca c3) = Some q3
                \<and> round_count q3 = round_count p'"
    if "pmodrl (ca c') = Some p'" "pm_next_rtt_delivered p' = delivered (sk c)"
      "ca c2 = ca c'" "before (rs_prior_delivered rs2) (delivered (sk c))"
    for c' p' c2 rs2
    using that detect_round_not_counted [of c2 p' rs2 cfg k] by simp
  show ?thesis
  proof (cases "pm_round_start p3 = 0")
    case True
    then show ?thesis
      unfolding step probe_pmodrl_capped [OF p3(1) p3(2) assms(3) p3(3) p3(4)]
      using frame p3 rs mk by (auto simp add: set_pmodrl_def)
  next
    case False
    show ?thesis
    proof (cases "round_count p3 + 1 \<ge> probe_interval cfg")
      case True
      define c' where "c' = (set_pmodrl c1 p3)\<lparr>ca := (ca (set_pmodrl c1 p3))\<lparr>cycle_idx := 0, mode := BBR_PROBE_BW,
                     pmodrl := Some (p3\<lparr>round_count := 0, upper_bound := 1, nominator := 1,
                                       mem_B := B_arr p3 ! unat (best_index p3),
                                       mem_R := R_arr p3 ! unat (best_index p3),
                                       round_count_no := 0,
                                       cycle_mstamp := delivered_mstamp (sk (set_pmodrl c1 p3))\<rparr>)\<rparr>\<rparr>"
      define p' where "p' = p3\<lparr>round_count := 0, upper_bound := 1, nominator := 1,
                                       mem_B := B_arr p3 ! unat (best_index p3),
                                       mem_R := R_arr p3 ! unat (best_index p3),
                                       round_count_no := 0,
                                       cycle_mstamp := delivered_mstamp (sk (set_pmodrl c1 p3))\<rparr>"
      have r: "detect_round cfg k c rs = Inr c'" "pmodrl (ca c') = Some p'"
        unfolding step probe_pmodrl_capped [OF p3(1) p3(2) assms(3) p3(3) p3(4)]
        using False True by (simp_all add: c'_def p'_def)
      have m: "pm_next_rtt_delivered p' = delivered (sk c)"
        using mk rs False by (simp add: p'_def)
      have o: "\<forall>c2 rs2. ca c2 = ca c' \<and> before (rs_prior_delivered rs2) (delivered (sk c))
                 \<longrightarrow> (\<exists>c3 q3. detect_round cfg k c2 rs2 = Inr c3 \<and> pmodrl (ca c3) = Some q3
                          \<and> round_count q3 = round_count p')"
        using once [OF r(2) m] by blast
      show ?thesis
        using r m o rs False True frame p3
        by (intro exI [of _ c'] exI [of _ p']) (simp add: c'_def p'_def)
    next
      case nd: False
      define p' where "p' = p3\<lparr>round_count := round_count p3 + 1\<rparr>"
      define c' where "c' = set_pmodrl (set_pmodrl c1 p3) p'"
      have r: "detect_round cfg k c rs = Inr c'" "pmodrl (ca c') = Some p'"
        unfolding step probe_pmodrl_capped [OF p3(1) p3(2) assms(3) p3(3) p3(4)]
        using False nd by (simp_all add: c'_def p'_def set_pmodrl_def)
      have m: "pm_next_rtt_delivered p' = delivered (sk c)"
        using mk rs False by (simp add: p'_def)
      have o: "\<forall>c2 rs2. ca c2 = ca c' \<and> before (rs_prior_delivered rs2) (delivered (sk c))
                 \<longrightarrow> (\<exists>c3 q3. detect_round cfg k c2 rs2 = Inr c3 \<and> pmodrl (ca c3) = Some q3
                          \<and> round_count q3 = round_count p')"
        using once [OF r(2) m] by blast
      show ?thesis
        using r m o rs False nd frame p3
        by (intro exI [of _ c'] exI [of _ p']) (simp add: c'_def p'_def set_pmodrl_def)
    qed
  qed
qed

theorem C2_probe_after_probe_interval_rounds_witness:
  "\<exists>c' p'. detect_round default_params example_kernel due_conn example_sample = Inr c'
      \<and> pmodrl (ca c') = Some p'
      \<and> nominator p' = 1 \<and> upper_bound p' = 1 \<and> cycle_idx (ca c') = 0
      \<and> mem_B p' = 5 \<and> mem_R p' = 16777 \<and> round_count p' = 0 \<and> round_count_no p' = 0
      \<and> mode (ca c') = BBR_PROBE_BW \<and> pm_next_rtt_delivered p' = 100"
proof -
  have h: "pmodrl (ca due_conn) = Some due_PMODRL" "classify due_PMODRL = 1"
    "optimize_flag default_params \<noteq> 0" "upper_bound due_PMODRL = 1" "nominator due_PMODRL = 0"
    by (simp_all add: due_conn_def due_PMODRL_def capped_PMODRL_def zero_PMODRL_def
        default_params_def)
  have v: "\<not> before (rs_prior_delivered example_sample) (pm_next_rtt_delivered due_PMODRL)"
    "\<not> rs_delivered example_sample <s 0" "\<not> rs_interval_us example_sample \<le>s 0"
    "round_count due_PMODRL + 1 \<ge> probe_interval default_params"
    "B_arr due_PMODRL ! unat (best_index due_PMODRL) = 5"
    "R_arr due_PMODRL ! unat (best_index due_PMODRL) = 16777"
    "delivered (sk due_conn) = 100"
    by (simp_all add: example_sample_def due_PMODRL_def capped_PMODRL_def zero_PMODRL_def
        default_params_def before_def word_sless_alt word_sle_eq due_conn_def example_sock_def)
  from C2_probe_after_probe_interval_rounds [OF h, of example_kernel example_sample]
  obtain c' p' where r: "detect_round default_params example_kernel due_conn example_sample = Inr c'"
    "pmodrl (ca c') = Some p'"
    "nominator p' = 1 \<and> upper_bound p' = 1 \<and> cycle_idx (ca c') = 0
      \<and> mem_B p' = 5 \<and> mem_R p' = 16777 \<and> round_count p' = 0 \<and> round_count_no p' = 0
      \<and> mode (ca c') = BBR_PROBE_BW \<and> pm_next_rtt_delivered p' = 100"
    using v by auto
  then show ?thesis by blast
qed

subsection \<open>What the grid blocks leave alone\<close>

lemma grid_frame_refl: "grid_frame p p"
  by (simp add: grid_frame_def)

lemma grid_frame_trans: "grid_frame p q \<Longrightarrow> grid_frame q r \<Longrightarrow> grid_frame p r"
  by (cases p; cases q; cases r) (simp add: grid_frame_def)

lemma grid_frame_R: "grid_frame p (p\<lparr>R_arr := v\<rparr>)"
  by (simp add: grid_frame_def)

lemma grid_frame_B: "grid_frame p (p\<lparr>B_arr := v\<rparr>)"
  by (simp add: grid_frame_def)

lemma same_stamp_is_early:
  "(ucast ((ucast (st :: u32) :: u64) div USEC_PER_MSEC
            - (ucast st :: u64) div USEC_PER_MSEC) :: u32) <s 1"
  by (simp add: word_sless_alt)

lemma refine_R_total:
  "\<exists>r. refine_R x st p is = Inr r \<and> grid_frame p (ctl_val r)
       \<and> B_arr (ctl_val r) = B_arr p \<and> high_loss_flag (ctl_val r) = high_loss_flag p
       \<and> bef_empty_goodput (ctl_val r) = bef_empty_goodput p
       \<and> loss_start_time_us (ctl_val r) = loss_start_time_us p
       \<and> length (R_arr (ctl_val r)) = length (R_arr p)"
proof (induction "is" arbitrary: p)
  case Nil
  then show ?case by (simp add: grid_frame_refl)
next
  case (Cons i "is")
  show ?case
  proof (cases "x > B_arr p ! i")
    case False
    then show ?thesis using Cons.IH [of p] by simp
  next
    case True
    show ?thesis
    proof (cases "(ucast ((ucast st :: u64) div USEC_PER_MSEC
                     - (ucast (bbr_start_us p) :: u64) div USEC_PER_MSEC) :: u32) <s 1")
      case True
      with \<open>x > B_arr p ! i\<close> show ?thesis by (simp add: Let_def grid_frame_refl)
    next
      case False
      then have ne: "st - bbr_start_us p \<noteq> 0"
        using same_stamp_is_early [of st] by auto
      define q where "q = p\<lparr>R_arr := (R_arr p)
                 [i := max (R_arr p ! i) ((x - B_arr p ! i) div ucast (st - bbr_start_us p))]\<rparr>"
      have step: "refine_R x st p (i # is) = refine_R x st q is"
        using \<open>x > B_arr p ! i\<close> False ne by (simp add: Let_def div_u64_def q_def)
      have fq: "grid_frame p q" by (simp add: q_def grid_frame_R)
      from Cons.IH [of q] obtain r where r: "refine_R x st q is = Inr r"
        "grid_frame q (ctl_val r)" "B_arr (ctl_val r) = B_arr q"
        "high_loss_flag (ctl_val r) = high_loss_flag q"
        "bef_empty_goodput (ctl_val r) = bef_empty_goodput q"
        "loss_start_time_us (ctl_val r) = loss_start_time_us q"
        "length (R_arr (ctl_val r)) = length (R_arr q)"
        by blast
      show ?thesis
        using step r grid_frame_trans [OF fq r(2)] by (simp add: q_def)
    qed
  qed
qed

lemma fill_B_fold:
  "fold (\<lambda>i q.
           if percent_arr ! i = 0 then q\<lparr>B_arr := (B_arr q)[i := 0]\<rparr>
           else q\<lparr>B_arr := (B_arr q)
                              [i := (ucast (before_loss_delivered q) :: u64)
                                      * scast (percent_arr ! i)
                                    + drop_bit BASED_SCALE
                                        (scast (BW_UNIT - percent_arr ! i) * lb)]\<rparr>) is p
   = p\<lparr>B_arr :=
         fold (\<lambda>i B. B[i := (if percent_arr ! i = 0 then 0
                              else (ucast (before_loss_delivered p) :: u64)
                                     * scast (percent_arr ! i)
                                   + drop_bit BASED_SCALE
                                       (scast (BW_UNIT - percent_arr ! i) * lb))])
           is (B_arr p)\<rparr>"
  by (induction "is" arbitrary: p) (simp_all cong: if_cong)

lemma fill_B_eq:
  "fill_B p lb =
     p\<lparr>B_arr :=
         fold (\<lambda>i B. B[i := (if percent_arr ! i = 0 then 0
                              else (ucast (before_loss_delivered p) :: u64)
                                     * scast (percent_arr ! i)
                                   + drop_bit BASED_SCALE
                                       (scast (BW_UNIT - percent_arr ! i) * lb))])
           grid_indices (B_arr p)\<rparr>"
  unfolding fill_B_def by (rule fill_B_fold)

lemma populate_grid_total:
  "\<exists>r. populate_grid p = Inr r \<and> grid_frame p (ctl_val r) \<and> high_loss_flag (ctl_val r) = 1"
proof -
  define p1 where "p1 = p\<lparr>high_loss_flag := 1\<rparr>"
  have f1: "grid_frame p p1" "high_loss_flag p1 = 1"
    by (simp_all add: p1_def grid_frame_def)
  show ?thesis
  proof (cases "(ucast ((ucast (before_loss_time_us p) :: u64) div USEC_PER_MSEC
                   - (ucast (bbr_start_us p) :: u64) div USEC_PER_MSEC) :: u32) <s 1")
    case True
    then show ?thesis using f1 by (simp add: populate_grid_def Let_def p1_def)
  next
    case False
    then have ne: "before_loss_time_us p - bbr_start_us p \<noteq> 0"
      using same_stamp_is_early [of "bbr_start_us p"] by auto
    define p3 where "p3 =
      fill_B (p1\<lparr>bef_empty_goodput :=
                   ((ucast (before_loss_delivered p) :: u64) * scast BW_UNIT)
                     div ucast (before_loss_time_us p - bbr_start_us p)\<rparr>)
        ((ucast (before_loss_delivered p) :: u64) * ucast (BASED_UNIT - abrupt_decrease_thresh))"
    have f3: "grid_frame p p3" "high_loss_flag p3 = 1"
      by (simp_all add: p3_def p1_def fill_B_eq grid_frame_def)
    obtain r where r: "refine_R ((ucast (before_loss_delivered p3) :: u64) * scast BW_UNIT)
                         (before_loss_time_us p3) p3 grid_indices = Inr r"
      "grid_frame p3 (ctl_val r)" "high_loss_flag (ctl_val r) = high_loss_flag p3"
      using refine_R_total by blast
    have "populate_grid p = Inr r"
      using False ne r(1)
      by (simp add: populate_grid_def Let_def bindE_def div_u64_def p3_def p1_def)
    then show ?thesis
      using r f3 grid_frame_trans [OF f3(1) r(2)] by simp
  qed
qed

lemma arm_high_loss_total:
  "\<exists>r. arm_high_loss min_rtt p now_us cur cur_lost = Inr r \<and> grid_frame p (ctl_val r)"
proof -
  have f1: "grid_frame p (p\<lparr>loss_start_time_us := 0\<rparr>)"
    by (simp add: grid_frame_def)
  from populate_grid_total [of p] f1 show ?thesis
    by (auto simp add: arm_high_loss_def Let_def grid_frame_refl)
qed


lemma fold_grid_arrays:
  "fold (\<lambda>i q. q\<lparr>B_arr := f i (B_arr q), R_arr := g i (R_arr q)\<rparr>) is p
     = p\<lparr>B_arr := fold f is (B_arr p), R_arr := fold g is (R_arr p)\<rparr>"
  by (induction "is" arbitrary: p) simp_all

lemma arrays_frame_refl: "arrays_frame p p"
  by (simp add: arrays_frame_def)

lemma arrays_frame_trans: "arrays_frame p q \<Longrightarrow> arrays_frame q r \<Longrightarrow> arrays_frame p r"
  by (cases p; cases q; cases r) (simp add: arrays_frame_def)

lemma arrays_frame_grid: "arrays_frame p q \<Longrightarrow> grid_frame p q"
  by (cases p; cases q) (simp add: arrays_frame_def grid_frame_def)

lemma grid_shift_frame:
  assumes "grid_shift p now_us cur = Inr p'"
  shows "arrays_frame p p'"
proof -
  have "fold (\<lambda>i q. q\<lparr>B_arr := (B_arr q)[i := B_arr q ! (i - 1)],
                        R_arr := (R_arr q)[i := R_arr q ! (i - 1)]\<rparr>) is p
          = p\<lparr>B_arr := fold (\<lambda>i B. B[i := B ! (i - 1)]) is (B_arr p),
               R_arr := fold (\<lambda>i R. R[i := R ! (i - 1)]) is (R_arr p)\<rparr>" for "is"
    by (rule fold_grid_arrays)
  then show ?thesis
    using assms
    by (auto simp add: grid_shift_def Let_def bindE_def div_u64_def arrays_frame_def
        split: if_splits)
qed

lemma comp_loop_bound:
  "comp_loop p flow is best = Inr b \<Longrightarrow> b = best \<or> b \<in> set is"
  by (induction "is" arbitrary: best)
    (auto simp add: Let_def split: if_splits sum.splits)

lemma comp_bound:
  assumes "comp p now_us = Inr b"
  shows "b < 9"
proof -
  from assms have "b = 0 \<or> b \<in> set [1, 2, 3, 4, 5, 6, 7, 8]"
    unfolding comp_def by (rule comp_loop_bound)
  then show ?thesis by auto
qed

lemma grid_shift_loop_frame:
  assumes "grid_shift_loop now_us cur p best = Some (Inr (p', b'))"
  shows "arrays_frame p p' \<and> b' \<noteq> 0 \<and> (best < 9 \<longrightarrow> b' < 9)"
proof -
  let ?P = "\<lambda>(now_us :: u32) (cur :: u32) (p :: PMODRL) (best :: nat)
               (y :: error + PMODRL \<times> nat).
             \<forall>p' b'. y = Inr (p', b') \<longrightarrow>
               arrays_frame p p' \<and> b' \<noteq> 0 \<and> (best < 9 \<longrightarrow> b' < 9)"
  have "?P now_us cur p best (Inr (p', b'))"
  proof (rule grid_shift_loop.raw_induct [where P = ?P, OF _ assms], goal_cases)
    case (1 loop now_us cur p best y)
    show ?case
    proof (cases "best = 0")
      case False
      with 1(2) show ?thesis by (auto simp add: arrays_frame_refl)
    next
      case True
      show ?thesis
      proof (intro allI impI)
        fix p' b'
        assume y: "y = Inr (p', b')"
        from 1(2) True y obtain p1 b where s: "grid_shift p now_us cur = Inr p1"
          "comp p1 now_us = Inr b" "loop now_us cur p1 b = Some (Inr (p', b'))"
          by (auto split: sum.splits)
        from 1(1) [OF s(3)] have "arrays_frame p1 p'" "b' \<noteq> 0" "b < 9 \<longrightarrow> b' < 9"
          by auto
        with grid_shift_frame [OF s(1)] comp_bound [OF s(2)]
        show "arrays_frame p p' \<and> b' \<noteq> 0 \<and> (best < 9 \<longrightarrow> b' < 9)"
          using arrays_frame_trans by blast
      qed
    qed
  qed
  then show ?thesis by blast
qed

lemma classify_step_frame: "class_frame q (fst (classify_step m a q t b))"
  by (simp add: classify_step_def Let_def class_frame_def)

lemma classify_step_classify:
  "classify (fst (classify_step m a q t b)) = classify q
   \<or> (classify q = 1 \<and> classify (fst (classify_step m a q t b)) = 2
       \<and> disable_flag (fst (classify_step m a q t b)) = 1)
   \<or> (classify q \<noteq> 1 \<and> classify (fst (classify_step m a q t b)) = 1)"
  by (simp add: classify_step_def Let_def)

lemma classify_step_disable:
  "disable_flag (fst (classify_step m a q t b)) \<noteq> disable_flag q \<Longrightarrow>
     classify q = 1 \<and> classify (fst (classify_step m a q t b)) = 2"
  by (simp add: classify_step_def Let_def split: if_splits)

lemma estimation_classify_result:
  assumes "estimation_classify cfg k c = Some (Inr c')" and "pmodrl (ca c) = Some p"
  shows "\<exists>q. grid_frame p q
           \<and> (\<exists>cur r. cur_delivered_of cfg c p = Inr cur
                 \<and> arm_high_loss (min_rtt_us (ca c)) p (jiffies_to_usecs k (tcp_jiffies32 k))
                       cur (lost (sk c) - transfer_start_lost p) = Inr r
                 \<and> high_loss_flag q = high_loss_flag (ctl_val r))
           \<and> (c' = set_pmodrl c q
              \<or> (\<exists>b q'. b < 9 \<and> b \<noteq> 0 \<and> class_frame (q\<lparr>best_index := of_nat b\<rparr>) q'
                   \<and> (q', False) =
                         classify_step (min_rtt_us (ca c)) (bytes_acked (sk c))
                           (q\<lparr>best_index := of_nat b\<rparr>)
                           (jiffies_to_usecs k (tcp_jiffies32 k)) b
                   \<and> c' = set_pmodrl c q')
              \<or> (\<exists>b q'. b < 9 \<and> b \<noteq> 0 \<and> class_frame (q\<lparr>best_index := of_nat b\<rparr>) q'
                   \<and> (q', True) =
                         classify_step (min_rtt_us (ca c)) (bytes_acked (sk c))
                           (q\<lparr>best_index := of_nat b\<rparr>)
                           (jiffies_to_usecs k (tcp_jiffies32 k)) b
                   \<and> c' = set_pmodrl (bbr_reset_lt_bw_sampling c) q'))"
proof -
  define now_us where "now_us = jiffies_to_usecs k (tcp_jiffies32 k)"
  from assms obtain cur where cur: "cur_delivered_of cfg c p = Inr cur"
    by (auto simp add: estimation_classify_def Let_def split: sum.splits)
  obtain r1 where r1:
    "arm_high_loss (min_rtt_us (ca c)) p now_us cur (lost (sk c) - transfer_start_lost p) = Inr r1"
    "grid_frame p (ctl_val r1)"
    using arm_high_loss_total by blast
  have goal: ?thesis
    if "grid_frame p q" and "high_loss_flag q = high_loss_flag (ctl_val r1)"
      and "c' = set_pmodrl c q
           \<or> (\<exists>b q'. b < 9 \<and> b \<noteq> 0 \<and> class_frame (q\<lparr>best_index := of_nat b\<rparr>) q'
                \<and> (q', False) =
                      classify_step (min_rtt_us (ca c)) (bytes_acked (sk c))
                        (q\<lparr>best_index := of_nat b\<rparr>) now_us b
                \<and> c' = set_pmodrl c q')
           \<or> (\<exists>b q'. b < 9 \<and> b \<noteq> 0 \<and> class_frame (q\<lparr>best_index := of_nat b\<rparr>) q'
                \<and> (q', True) =
                      classify_step (min_rtt_us (ca c)) (bytes_acked (sk c))
                        (q\<lparr>best_index := of_nat b\<rparr>) now_us b
                \<and> c' = set_pmodrl (bbr_reset_lt_bw_sampling c) q')" for q
  proof -
    have "\<exists>cur r. cur_delivered_of cfg c p = Inr cur
            \<and> arm_high_loss (min_rtt_us (ca c)) p now_us
                  cur (lost (sk c) - transfer_start_lost p) = Inr r
            \<and> high_loss_flag q = high_loss_flag (ctl_val r)"
      using cur r1(1) that(2) by blast
    with that(1) that(3) show ?thesis
      unfolding now_us_def by (intro exI [of _ q] conjI)
  qed
  show ?thesis
  proof (cases r1)
    case (Return p1)
    with assms cur r1 have "c' = set_pmodrl c p1"
      by (simp add: estimation_classify_def Let_def now_us_def)
    with r1(2) Return show ?thesis by (intro goal [of p1]) simp_all
  next
    case (Next p1)
    obtain r2 where r2:
      "refine_R ((ucast cur :: u64) * scast BW_UNIT) now_us p1 grid_indices = Inr r2"
      "grid_frame p1 (ctl_val r2)" "high_loss_flag (ctl_val r2) = high_loss_flag p1"
      using refine_R_total by blast
    have f2: "grid_frame p (ctl_val r2)"
      using r1(2) r2(2) Next grid_frame_trans by simp
    show ?thesis
    proof (cases r2)
      case (Return p2)
      with assms cur r1 r2 Next have "c' = set_pmodrl c p2"
        by (simp add: estimation_classify_def Let_def now_us_def)
      with f2 r2(3) Next Return show ?thesis by (intro goal [of p2]) simp_all
    next
      case n2: (Next p2)
      from assms cur r1 r2 Next n2 obtain b0 p3 b3 where s:
        "comp p2 now_us = Inr b0"
        "grid_shift_loop now_us cur (p2\<lparr>best_index := of_nat b0\<rparr>) b0 = Some (Inr (p3, b3))"
        "c' = set_pmodrl
                (if snd (classify_step (min_rtt_us (ca c)) (bytes_acked (sk c))
                           (p3\<lparr>best_index := of_nat b3\<rparr>) now_us b3)
                 then bbr_reset_lt_bw_sampling c else c)
                (fst (classify_step (min_rtt_us (ca c)) (bytes_acked (sk c))
                        (p3\<lparr>best_index := of_nat b3\<rparr>) now_us b3))"
        by (auto simp add: estimation_classify_def Let_def now_us_def
            split: sum.splits option.splits prod.splits)
      from grid_shift_loop_frame [OF s(2)] comp_bound [OF s(1)]
      have l: "arrays_frame (p2\<lparr>best_index := of_nat b0\<rparr>) p3" "b3 \<noteq> 0" "b3 < 9"
        by auto
      define q where "q = p3\<lparr>best_index := best_index p2\<rparr>"
      have q1: "arrays_frame p2 q"
        using l(1) by (cases p2; cases p3) (simp add: arrays_frame_def q_def)
      have q2: "q\<lparr>best_index := of_nat b3\<rparr> = p3\<lparr>best_index := of_nat b3\<rparr>"
        by (simp add: q_def)
      have q3: "high_loss_flag q = high_loss_flag p2"
        using q1 by (cases p2; cases q) (simp add: arrays_frame_def)
      have fq: "grid_frame p q"
        using f2 n2 arrays_frame_grid [OF q1] grid_frame_trans by simp
      have kq: "high_loss_flag q = high_loss_flag (ctl_val r1)"
        using r2(3) Next n2 q3 by simp
      let ?cs = "classify_step (min_rtt_us (ca c)) (bytes_acked (sk c))
                   (q\<lparr>best_index := of_nat b3\<rparr>) now_us b3"
      have cf: "class_frame (q\<lparr>best_index := of_nat b3\<rparr>) (fst ?cs)"
        by (rule classify_step_frame)
      have c': "c' = set_pmodrl (if snd ?cs then bbr_reset_lt_bw_sampling c else c) (fst ?cs)"
        using s(3) q2 by simp
      show ?thesis
      proof (cases "snd ?cs")
        case True
        then have eq: "(fst ?cs, True) = ?cs" by (simp add: prod_eq_iff)
        have "\<exists>b q'. b < 9 \<and> b \<noteq> 0 \<and> class_frame (q\<lparr>best_index := of_nat b\<rparr>) q'
                \<and> (q', True) =
                      classify_step (min_rtt_us (ca c)) (bytes_acked (sk c))
                        (q\<lparr>best_index := of_nat b\<rparr>) now_us b
                \<and> c' = set_pmodrl (bbr_reset_lt_bw_sampling c) q'"
          using l cf c' True eq by (intro exI [of _ b3] exI [of _ "fst ?cs"]) simp
        with fq kq show ?thesis by (intro goal [of q]) simp_all
      next
        case False
        then have eq: "(fst ?cs, False) = ?cs" by (simp add: prod_eq_iff)
        have "\<exists>b q'. b < 9 \<and> b \<noteq> 0 \<and> class_frame (q\<lparr>best_index := of_nat b\<rparr>) q'
                \<and> (q', False) =
                      classify_step (min_rtt_us (ca c)) (bytes_acked (sk c))
                        (q\<lparr>best_index := of_nat b\<rparr>) now_us b
                \<and> c' = set_pmodrl c q'"
          using l cf c' False eq by (intro exI [of _ b3] exI [of _ "fst ?cs"]) simp
        with fq kq show ?thesis by (intro goal [of q]) simp_all
      qed
    qed
  qed
qed

subsection \<open>Arming on sustained loss\<close>

lemma class_frame_high_loss: "class_frame q q' \<Longrightarrow> high_loss_flag q' = high_loss_flag q"
  by (cases q; cases q') (simp add: class_frame_def)

lemma set_pmodrl_same: "pmodrl (ca c) = Some p \<Longrightarrow> set_pmodrl c p = c"
  by (simp add: set_pmodrl_def)

text \<open>
  C4, as stated, fails in two ways. In \<open>boundary_time_conn\<close> the loss episode began exactly
  \<open>7 * min_rtt_us\<close> ago and half of the 80 packets since the bucket emptied were lost: the
  detector does not arm, and it does not clear \<open>loss_start_time_us\<close> either. In
  \<open>boundary_loss_conn\<close> the episode is old enough and exactly 20% (10 of 50) were lost: the
  detector does not arm.
\<close>

theorem C4_counterexample:
  "pmodrl (ca boundary_time_conn) = Some (episode_PMODRL\<lparr>loss_start_time_us := 1930000\<rparr>)
   \<and> high_loss_flag episode_PMODRL = 0
   \<and> jiffies_to_usecs example_kernel (tcp_jiffies32 example_kernel) - 1930000
        = 7 * min_rtt_us (ca boundary_time_conn)
   \<and> cur_delivered_of default_params boundary_time_conn
        (episode_PMODRL\<lparr>loss_start_time_us := 1930000\<rparr>) = Inr 100
   \<and> before_loss_delivered episode_PMODRL = 60
   \<and> lost (sk boundary_time_conn) - transfer_start_lost episode_PMODRL
        - before_loss_lost episode_PMODRL = 40
   \<and> estimation_classify default_params example_kernel boundary_time_conn
        = Some (Inr boundary_time_conn)
   \<and> pmodrl (ca boundary_loss_conn) = Some episode_PMODRL
   \<and> loss_start_time_us episode_PMODRL + 7 * min_rtt_us (ca boundary_loss_conn)
        < jiffies_to_usecs example_kernel (tcp_jiffies32 example_kernel)
   \<and> cur_delivered_of default_params boundary_loss_conn episode_PMODRL = Inr 100
   \<and> lost (sk boundary_loss_conn) - transfer_start_lost episode_PMODRL
        - before_loss_lost episode_PMODRL = 10
   \<and> estimation_classify default_params example_kernel boundary_loss_conn
        = Some (Inr (set_pmodrl boundary_loss_conn (episode_PMODRL\<lparr>loss_start_time_us := 0\<rparr>)))"
  by (simp add: estimation_classify_def arm_high_loss_def cur_delivered_of_def set_pmodrl_def
      boundary_time_conn_def boundary_loss_conn_def episode_PMODRL_def zero_PMODRL_def
      example_sock_def example_bbr_def example_kernel_def default_params_def Let_def)

text \<open>
  C4, amended. With \<open>high_loss_flag = 0\<close>, let \<open>d\<close> and \<open>l\<close> be the packets delivered and
  lost since the snapshot before the loss. If \<open>loss_start_time_us\<close> is 0 or
  \<open>loss_start_time_us + 7 * min_rtt_us < now\<close> fails (\<^verbatim>\<open>u32\<close> arithmetic),
  \<^verbatim>\<open>estimation_classify\<close> returns and changes nothing. If the time test holds and
  \<open>d + l = 0\<close> or \<open>10 * l > 2 * (d + l)\<close> fails, it clears \<open>loss_start_time_us\<close> and changes
  nothing else. If both tests hold, the arming block sets \<open>high_loss_flag = 1\<close> without
  trapping, and every state \<^verbatim>\<open>estimation_classify\<close> returns has \<open>high_loss_flag = 1\<close>.
\<close>

theorem C4_arming_tests_are_strict:
  assumes "pmodrl (ca c) = Some p" and "high_loss_flag p = 0"
    and "cur_delivered_of cfg c p = Inr cur"
    and "now_us = jiffies_to_usecs k (tcp_jiffies32 k)"
    and "d = cur - before_loss_delivered p"
    and "l = lost (sk c) - transfer_start_lost p - before_loss_lost p"
  shows "(\<not> (loss_start_time_us p \<noteq> 0 \<and> loss_start_time_us p + 7 * min_rtt_us (ca c) < now_us)
            \<longrightarrow> estimation_classify cfg k c = Some (Inr c))
       \<and> (loss_start_time_us p \<noteq> 0 \<and> loss_start_time_us p + 7 * min_rtt_us (ca c) < now_us
            \<and> \<not> (d + l \<noteq> 0 \<and> (ucast l :: u64) * 10 > (ucast (d + l) :: u64) * 2)
            \<longrightarrow> estimation_classify cfg k c
                  = Some (Inr (set_pmodrl c (p\<lparr>loss_start_time_us := 0\<rparr>))))
       \<and> (loss_start_time_us p \<noteq> 0 \<and> loss_start_time_us p + 7 * min_rtt_us (ca c) < now_us
            \<and> d + l \<noteq> 0 \<and> (ucast l :: u64) * 10 > (ucast (d + l) :: u64) * 2
            \<longrightarrow> (\<exists>r. arm_high_loss (min_rtt_us (ca c)) p now_us cur
                         (lost (sk c) - transfer_start_lost p) = Inr r
                       \<and> high_loss_flag (ctl_val r) = 1)
                \<and> (\<forall>c'. estimation_classify cfg k c = Some (Inr c')
                         \<longrightarrow> (\<exists>q. pmodrl (ca c') = Some q \<and> high_loss_flag q = 1)))"
proof (intro conjI impI)
  assume "\<not> (loss_start_time_us p \<noteq> 0 \<and> loss_start_time_us p + 7 * min_rtt_us (ca c) < now_us)"
  with assms show "estimation_classify cfg k c = Some (Inr c)"
    by (auto simp add: estimation_classify_def arm_high_loss_def Let_def set_pmodrl_same)
next
  assume "loss_start_time_us p \<noteq> 0 \<and> loss_start_time_us p + 7 * min_rtt_us (ca c) < now_us
            \<and> \<not> (d + l \<noteq> 0 \<and> (ucast l :: u64) * 10 > (ucast (d + l) :: u64) * 2)"
  with assms show "estimation_classify cfg k c
                  = Some (Inr (set_pmodrl c (p\<lparr>loss_start_time_us := 0\<rparr>)))"
    by (auto simp add: estimation_classify_def arm_high_loss_def Let_def)
next
  assume a: "loss_start_time_us p \<noteq> 0 \<and> loss_start_time_us p + 7 * min_rtt_us (ca c) < now_us
            \<and> d + l \<noteq> 0 \<and> (ucast l :: u64) * 10 > (ucast (d + l) :: u64) * 2"
  obtain r where r: "populate_grid p = Inr r" "high_loss_flag (ctl_val r) = 1"
    using populate_grid_total by blast
  have arm: "arm_high_loss (min_rtt_us (ca c)) p now_us cur
                 (lost (sk c) - transfer_start_lost p) = Inr r"
    using a assms r(1) by (simp add: arm_high_loss_def Let_def)
  with r(2) show "\<exists>r. arm_high_loss (min_rtt_us (ca c)) p now_us cur
                         (lost (sk c) - transfer_start_lost p) = Inr r
                       \<and> high_loss_flag (ctl_val r) = 1"
    by blast
  show "\<forall>c'. estimation_classify cfg k c = Some (Inr c')
                         \<longrightarrow> (\<exists>q. pmodrl (ca c') = Some q \<and> high_loss_flag q = 1)"
  proof (intro allI impI)
    fix c'
    assume e: "estimation_classify cfg k c = Some (Inr c')"
    from estimation_classify_result [OF e assms(1)] obtain q cur' r' where
      q: "cur_delivered_of cfg c p = Inr cur'"
        "arm_high_loss (min_rtt_us (ca c)) p (jiffies_to_usecs k (tcp_jiffies32 k))
           cur' (lost (sk c) - transfer_start_lost p) = Inr r'"
        "high_loss_flag q = high_loss_flag (ctl_val r')"
      and d: "c' = set_pmodrl c q
              \<or> (\<exists>b q'. b < 9 \<and> b \<noteq> 0 \<and> class_frame (q\<lparr>best_index := of_nat b\<rparr>) q'
                   \<and> (q', False) =
                         classify_step (min_rtt_us (ca c)) (bytes_acked (sk c))
                           (q\<lparr>best_index := of_nat b\<rparr>)
                           (jiffies_to_usecs k (tcp_jiffies32 k)) b
                   \<and> c' = set_pmodrl c q')
              \<or> (\<exists>b q'. b < 9 \<and> b \<noteq> 0 \<and> class_frame (q\<lparr>best_index := of_nat b\<rparr>) q'
                   \<and> (q', True) =
                         classify_step (min_rtt_us (ca c)) (bytes_acked (sk c))
                           (q\<lparr>best_index := of_nat b\<rparr>)
                           (jiffies_to_usecs k (tcp_jiffies32 k)) b
                   \<and> c' = set_pmodrl (bbr_reset_lt_bw_sampling c) q')"
      by blast
    from q arm assms(3) assms(4) r(2) have hq: "high_loss_flag q = 1" by simp
    from d show "\<exists>q. pmodrl (ca c') = Some q \<and> high_loss_flag q = 1"
    proof (elim disjE exE conjE)
      assume "c' = set_pmodrl c q"
      with hq show ?thesis by (simp add: set_pmodrl_def)
    next
      fix b q'
      assume "class_frame (q\<lparr>best_index := of_nat b\<rparr>) q'" "c' = set_pmodrl c q'"
      with hq class_frame_high_loss [of "q\<lparr>best_index := of_nat b\<rparr>" q']
      show ?thesis by (simp add: set_pmodrl_def)
    next
      fix b q'
      assume "class_frame (q\<lparr>best_index := of_nat b\<rparr>) q'"
        "c' = set_pmodrl (bbr_reset_lt_bw_sampling c) q'"
      with hq class_frame_high_loss [of "q\<lparr>best_index := of_nat b\<rparr>" q']
      show ?thesis by (simp add: set_pmodrl_def)
    qed
  qed
qed

theorem C4_arming_tests_are_strict_witness:
  "estimation_classify default_params example_kernel boundary_time_conn
     = Some (Inr boundary_time_conn)
   \<and> estimation_classify default_params example_kernel boundary_loss_conn
       = Some (Inr (set_pmodrl boundary_loss_conn (episode_PMODRL\<lparr>loss_start_time_us := 0\<rparr>)))
   \<and> (\<exists>r. arm_high_loss (min_rtt_us (ca lossy_conn)) episode_PMODRL 2000000 100
              (lost (sk lossy_conn) - transfer_start_lost episode_PMODRL) = Inr r
            \<and> high_loss_flag (ctl_val r) = 1)"
proof -
  have h1: "pmodrl (ca boundary_time_conn) = Some (episode_PMODRL\<lparr>loss_start_time_us := 1930000\<rparr>)"
    "high_loss_flag (episode_PMODRL\<lparr>loss_start_time_us := 1930000\<rparr>) = 0"
    "cur_delivered_of default_params boundary_time_conn
       (episode_PMODRL\<lparr>loss_start_time_us := 1930000\<rparr>) = Inr 100"
    "2000000 = jiffies_to_usecs example_kernel (tcp_jiffies32 example_kernel)"
    by (simp_all add: boundary_time_conn_def episode_PMODRL_def zero_PMODRL_def
        cur_delivered_of_def default_params_def example_sock_def example_bbr_def
        example_kernel_def)
  have t1: "\<not> (loss_start_time_us (episode_PMODRL\<lparr>loss_start_time_us := 1930000\<rparr>) \<noteq> 0
               \<and> loss_start_time_us (episode_PMODRL\<lparr>loss_start_time_us := 1930000\<rparr>)
                   + 7 * min_rtt_us (ca boundary_time_conn) < 2000000)"
    by (simp add: boundary_time_conn_def example_bbr_def)
  have h2: "pmodrl (ca boundary_loss_conn) = Some episode_PMODRL"
    "high_loss_flag episode_PMODRL = 0"
    "cur_delivered_of default_params boundary_loss_conn episode_PMODRL = Inr 100"
    by (simp_all add: boundary_loss_conn_def episode_PMODRL_def zero_PMODRL_def
        cur_delivered_of_def default_params_def example_sock_def example_bbr_def)
  have t2: "loss_start_time_us episode_PMODRL \<noteq> 0
      \<and> loss_start_time_us episode_PMODRL + 7 * min_rtt_us (ca boundary_loss_conn) < 2000000
      \<and> \<not> ((100 - before_loss_delivered episode_PMODRL)
               + (lost (sk boundary_loss_conn) - transfer_start_lost episode_PMODRL
                    - before_loss_lost episode_PMODRL) \<noteq> 0
             \<and> (ucast (lost (sk boundary_loss_conn) - transfer_start_lost episode_PMODRL
                    - before_loss_lost episode_PMODRL) :: u64) * 10
                > (ucast ((100 - before_loss_delivered episode_PMODRL)
                      + (lost (sk boundary_loss_conn) - transfer_start_lost episode_PMODRL
                           - before_loss_lost episode_PMODRL)) :: u64) * 2)"
    by (simp add: boundary_loss_conn_def episode_PMODRL_def zero_PMODRL_def example_sock_def
        example_bbr_def)
  have h3: "pmodrl (ca lossy_conn) = Some episode_PMODRL"
    "cur_delivered_of default_params lossy_conn episode_PMODRL = Inr 100"
    by (simp_all add: lossy_conn_def episode_PMODRL_def zero_PMODRL_def
        cur_delivered_of_def default_params_def example_sock_def example_bbr_def)
  have t3: "loss_start_time_us episode_PMODRL \<noteq> 0
      \<and> loss_start_time_us episode_PMODRL + 7 * min_rtt_us (ca lossy_conn) < 2000000
      \<and> (100 - before_loss_delivered episode_PMODRL)
               + (lost (sk lossy_conn) - transfer_start_lost episode_PMODRL
                    - before_loss_lost episode_PMODRL) \<noteq> 0
      \<and> (ucast (lost (sk lossy_conn) - transfer_start_lost episode_PMODRL
                    - before_loss_lost episode_PMODRL) :: u64) * 10
                > (ucast ((100 - before_loss_delivered episode_PMODRL)
                      + (lost (sk lossy_conn) - transfer_start_lost episode_PMODRL
                           - before_loss_lost episode_PMODRL)) :: u64) * 2"
    by (simp add: lossy_conn_def episode_PMODRL_def zero_PMODRL_def example_sock_def
        example_bbr_def)
  from C4_arming_tests_are_strict [OF h1(1) h1(2) h1(3) h1(4) refl refl] t1
  have 1: "estimation_classify default_params example_kernel boundary_time_conn
             = Some (Inr boundary_time_conn)"
    by blast
  from C4_arming_tests_are_strict [OF h2(1) h2(2) h2(3) h1(4) refl refl] t2
  have 2: "estimation_classify default_params example_kernel boundary_loss_conn
       = Some (Inr (set_pmodrl boundary_loss_conn (episode_PMODRL\<lparr>loss_start_time_us := 0\<rparr>)))"
    by blast
  from C4_arming_tests_are_strict [OF h3(1) h2(2) h3(2) h1(4) refl refl] t3
  have 3: "\<exists>r. arm_high_loss (min_rtt_us (ca lossy_conn)) episode_PMODRL 2000000 100
              (lost (sk lossy_conn) - transfer_start_lost episode_PMODRL) = Inr r
            \<and> high_loss_flag (ctl_val r) = 1"
    by blast
  from 1 2 3 show ?thesis by blast
qed

subsection \<open>What the handler leaves of the verdict\<close>

lemma bindE_Inr:
  "bindE m f = Inr y \<longleftrightarrow> (\<exists>x. m = Inr x \<and> f x = Inr y)"
  by (cases m) (simp_all add: bindE_def)


lemma flags_reset_lt_bw_sampling_interval:
  "detector_flags (bbr_reset_lt_bw_sampling_interval c) = detector_flags c"
  by (simp add: detector_flags_def bbr_reset_lt_bw_sampling_interval_def)




















lemma grid_frame_fields:
  assumes "grid_frame p q"
  shows "classify q = classify p \<and> disable_flag q = disable_flag p
         \<and> reset_ltbw_flag q = reset_ltbw_flag p \<and> mem_B q = mem_B p \<and> mem_R q = mem_R p
         \<and> classify_time_us q = classify_time_us p \<and> bbr_start_us q = bbr_start_us p
         \<and> upper_bound q = upper_bound p"
  using assms by (cases p; cases q) (simp add: grid_frame_def)





lemma classify_step_reset:
  "(snd (classify_step m a q t b) \<longrightarrow>
      reset_ltbw_flag q = 0 \<and> reset_ltbw_flag (fst (classify_step m a q t b)) = 1)
   \<and> (\<not> snd (classify_step m a q t b) \<longrightarrow>
      reset_ltbw_flag (fst (classify_step m a q t b)) = reset_ltbw_flag q)"
  by (simp add: classify_step_def Let_def)



lemma estimation_classify_flags:
  assumes "estimation_classify cfg k c = Some (Inr c')" and "pmodrl (ca c) = Some p"
  shows "\<exists>p'. (c' = set_pmodrl c p' \<and> reset_ltbw_flag p' = reset_ltbw_flag p
               \<or> c' = set_pmodrl (bbr_reset_lt_bw_sampling c) p'
                  \<and> reset_ltbw_flag p = 0 \<and> reset_ltbw_flag p' = 1)
           \<and> (classify p' = classify p \<and> disable_flag p' = disable_flag p
              \<or> classify p = 1 \<and> classify p' = 2 \<and> disable_flag p' = 1
              \<or> classify p \<noteq> 1 \<and> classify p' = 1 \<and> disable_flag p' = disable_flag p)"
proof -
  from estimation_classify_result [OF assms] obtain q where
    q: "grid_frame p q"
    and d: "c' = set_pmodrl c q
              \<or> (\<exists>b q'. b < 9 \<and> b \<noteq> 0 \<and> class_frame (q\<lparr>best_index := of_nat b\<rparr>) q'
                   \<and> (q', False) =
                         classify_step (min_rtt_us (ca c)) (bytes_acked (sk c))
                           (q\<lparr>best_index := of_nat b\<rparr>)
                           (jiffies_to_usecs k (tcp_jiffies32 k)) b
                   \<and> c' = set_pmodrl c q')
              \<or> (\<exists>b q'. b < 9 \<and> b \<noteq> 0 \<and> class_frame (q\<lparr>best_index := of_nat b\<rparr>) q'
                   \<and> (q', True) =
                         classify_step (min_rtt_us (ca c)) (bytes_acked (sk c))
                           (q\<lparr>best_index := of_nat b\<rparr>)
                           (jiffies_to_usecs k (tcp_jiffies32 k)) b
                   \<and> c' = set_pmodrl (bbr_reset_lt_bw_sampling c) q')"
    by blast
  note f = grid_frame_fields [OF q]
  have cs: "classify (fst (classify_step m a (q\<lparr>best_index := v\<rparr>) t b)) = classify p
              \<and> disable_flag (fst (classify_step m a (q\<lparr>best_index := v\<rparr>) t b)) = disable_flag p
            \<or> classify p = 1 \<and> classify (fst (classify_step m a (q\<lparr>best_index := v\<rparr>) t b)) = 2
              \<and> disable_flag (fst (classify_step m a (q\<lparr>best_index := v\<rparr>) t b)) = 1
            \<or> classify p \<noteq> 1 \<and> classify (fst (classify_step m a (q\<lparr>best_index := v\<rparr>) t b)) = 1
              \<and> disable_flag (fst (classify_step m a (q\<lparr>best_index := v\<rparr>) t b)) = disable_flag p"
    for m a v t b
    using f by (simp add: classify_step_def Let_def)
  from d show ?thesis
  proof (elim disjE exE conjE)
    assume "c' = set_pmodrl c q"
    with f show ?thesis by (intro exI [of _ q]) simp
  next
    fix b q'
    assume a: "(q', False) = classify_step (min_rtt_us (ca c)) (bytes_acked (sk c))
                           (q\<lparr>best_index := of_nat b\<rparr>)
                           (jiffies_to_usecs k (tcp_jiffies32 k)) b"
      "c' = set_pmodrl c q'"
    from a(1) have e: "fst (classify_step (min_rtt_us (ca c)) (bytes_acked (sk c))
                           (q\<lparr>best_index := of_nat b\<rparr>)
                           (jiffies_to_usecs k (tcp_jiffies32 k)) b) = q'"
      "\<not> snd (classify_step (min_rtt_us (ca c)) (bytes_acked (sk c))
                           (q\<lparr>best_index := of_nat b\<rparr>)
                           (jiffies_to_usecs k (tcp_jiffies32 k)) b)"
      by (simp_all add: prod_eq_iff)
    from classify_step_reset [of "min_rtt_us (ca c)" "bytes_acked (sk c)"
        "q\<lparr>best_index := of_nat b\<rparr>" "jiffies_to_usecs k (tcp_jiffies32 k)" b] e f
    have r: "reset_ltbw_flag q' = reset_ltbw_flag p" by simp
    from cs [of "min_rtt_us (ca c)" "bytes_acked (sk c)" "of_nat b"
        "jiffies_to_usecs k (tcp_jiffies32 k)" b] e(1) a(2) r
    show ?thesis by (intro exI [of _ q']) simp
  next
    fix b q'
    assume a: "(q', True) = classify_step (min_rtt_us (ca c)) (bytes_acked (sk c))
                           (q\<lparr>best_index := of_nat b\<rparr>)
                           (jiffies_to_usecs k (tcp_jiffies32 k)) b"
      "c' = set_pmodrl (bbr_reset_lt_bw_sampling c) q'"
    from a(1) have e: "fst (classify_step (min_rtt_us (ca c)) (bytes_acked (sk c))
                           (q\<lparr>best_index := of_nat b\<rparr>)
                           (jiffies_to_usecs k (tcp_jiffies32 k)) b) = q'"
      "snd (classify_step (min_rtt_us (ca c)) (bytes_acked (sk c))
                           (q\<lparr>best_index := of_nat b\<rparr>)
                           (jiffies_to_usecs k (tcp_jiffies32 k)) b)"
      by (simp_all add: prod_eq_iff)
    from classify_step_reset [of "min_rtt_us (ca c)" "bytes_acked (sk c)"
        "q\<lparr>best_index := of_nat b\<rparr>" "jiffies_to_usecs k (tcp_jiffies32 k)" b] e f
    have r: "reset_ltbw_flag p = 0" "reset_ltbw_flag q' = 1" by simp_all
    from cs [of "min_rtt_us (ca c)" "bytes_acked (sk c)" "of_nat b"
        "jiffies_to_usecs k (tcp_jiffies32 k)" b] e(1) a(2) r
    show ?thesis by (intro exI [of _ q']) simp
  qed
qed












lemma reset_pmodrl_zeroes:
  assumes "reset_pmodrl cfg k c res1 res2 = Inr c'"
  shows "\<exists>p'. c' = set_pmodrl c p' \<and> disable_flag p' = 0 \<and> reset_ltbw_flag p' = 0"
  using assms
  by (auto simp add: reset_pmodrl_def Let_def bindE_Inr zero_PMODRL_def
      split: option.splits if_splits)









subsection \<open>Classification\<close>





subsection \<open>PROBE_RTT\<close>

lemma gain_state_set_pmodrl: "gain_state (set_pmodrl c p) = gain_state c"
  by (simp add: gain_state_def set_pmodrl_def)

lemma gain_state_reset_lt_bw_sampling: "gain_state (bbr_reset_lt_bw_sampling c) = gain_state c"
  by (simp add: gain_state_def bbr_reset_lt_bw_sampling_def bbr_reset_lt_bw_sampling_interval_def)

lemma sk_reset_lt_bw_sampling: "sk (bbr_reset_lt_bw_sampling c) = sk c"
  by (simp add: bbr_reset_lt_bw_sampling_def bbr_reset_lt_bw_sampling_interval_def)

lemma sk_set_pmodrl: "sk (set_pmodrl c p) = sk c"
  by (simp add: set_pmodrl_def)

lemma update_model_gains:
  assumes "bbr_update_model k c rs = Inr c'" and "mode (ca c') = BBR_PROBE_RTT"
  shows "pacing_gain (ca c') = ucast BBR_UNIT \<and> cwnd_gain (ca c') = ucast BBR_UNIT"
proof -
  from assms(1) obtain c4 where c': "c' = bbr_update_gains c4"
    unfolding bbr_update_model_def by (auto simp add: bindE_Inr)
  from assms(2) show ?thesis
    unfolding c' by (cases "mode (ca c4)") (simp_all add: bbr_update_gains_def)
qed

lemma estimation_classify_gains:
  assumes "estimation_classify cfg k c = Some (Inr c')"
  shows "gain_state c' = gain_state c \<and> sk c' = sk c"
proof (cases "pmodrl (ca c)")
  case None
  with assms show ?thesis by (simp add: estimation_classify_def)
next
  case (Some p)
  from estimation_classify_flags [OF assms Some] show ?thesis
    by (auto simp add: gain_state_set_pmodrl gain_state_reset_lt_bw_sampling sk_set_pmodrl
        sk_reset_lt_bw_sampling)
qed

lemma probe_pmodrl_gains:
  assumes "probe_pmodrl cfg c = Inr c'"
  shows "sk c' = sk c \<and> pacing_gain (ca c') = pacing_gain (ca c)
         \<and> cwnd_gain (ca c') = cwnd_gain (ca c)
         \<and> (mode (ca c') = mode (ca c) \<or> mode (ca c') = BBR_PROBE_BW)"
proof (cases "pmodrl (ca c)")
  case None
  with assms show ?thesis by (simp add: probe_pmodrl_def)
next
  case (Some p)
  show ?thesis
  proof (cases "classify p = 1 \<and> optimize_flag cfg \<noteq> 0")
    case False
    with assms Some show ?thesis by (auto simp add: probe_pmodrl_def)
  next
    case True
    show ?thesis
    proof (cases "upper_bound p \<noteq> 1 \<or> nominator p \<noteq> 0")
      case u: True
      from assms Some True u obtain p' where "c' = set_pmodrl c p'"
        by (auto simp add: probe_pmodrl_def Let_def split: if_splits)
      then show ?thesis by (simp add: set_pmodrl_def)
    next
      case u: False
      then have u': "upper_bound p = 1" "nominator p = 0" by auto
      from True have t: "classify p = 1" "optimize_flag cfg \<noteq> 0" by auto
      from assms show ?thesis
        unfolding probe_pmodrl_capped [OF Some t(1) t(2) u'(1) u'(2)]
        by (auto simp add: set_pmodrl_def split: if_splits)
    qed
  qed
qed

lemma detect_round_gains:
  assumes "detect_round cfg k c rs = Inr c'"
  shows "sk c' = sk c \<and> pacing_gain (ca c') = pacing_gain (ca c)
         \<and> cwnd_gain (ca c') = cwnd_gain (ca c)
         \<and> (mode (ca c') = mode (ca c) \<or> mode (ca c') = BBR_PROBE_BW)"
proof (cases "pmodrl (ca c)")
  case None
  with assms show ?thesis by (simp add: detect_round_def)
next
  case (Some p)
  let ?c1 = "if classify p = 1 \<and> optimize_flag cfg \<noteq> 0 then bbr_reset_lt_bw_sampling c else c"
  have g1: "gain_state ?c1 = gain_state c" "sk ?c1 = sk c"
    by (simp_all add: gain_state_reset_lt_bw_sampling sk_reset_lt_bw_sampling)
  from assms Some obtain p3 where "probe_pmodrl cfg (set_pmodrl ?c1 p3) = Inr c'"
    by (auto simp add: detect_round_def Let_def)
  from probe_pmodrl_gains [OF this] g1 show ?thesis
    by (simp add: sk_set_pmodrl gain_state_def set_pmodrl_def split: if_splits)
qed

lemma bbr_main_detector_gains:
  assumes "bbr_main_detector cfg k c rs = Some (Inr c')"
  shows "sk c' = sk c \<and> pacing_gain (ca c') = pacing_gain (ca c)
         \<and> cwnd_gain (ca c') = cwnd_gain (ca c)
         \<and> (mode (ca c') = mode (ca c) \<or> mode (ca c') = BBR_PROBE_BW)"
proof (cases "pmodrl (ca c)")
  case None
  with assms show ?thesis by (simp add: bbr_main_detector_def)
next
  case (Some p)
  from assms Some obtain p2 c2 q1 where s:
    "estimation_classify cfg k (set_pmodrl c p2) = Some (Inr c2) \<or> c2 = set_pmodrl c p2"
    "detect_round cfg k (set_pmodrl c2 q1) rs = Inr c'"
    unfolding bbr_main_detector_def Let_def
    by (auto simp add: bindE_Inr split: option.splits sum.splits if_splits)
  from s(1) have g2: "gain_state c2 = gain_state c \<and> sk c2 = sk c"
    using estimation_classify_gains [of cfg k "set_pmodrl c p2" c2]
    by (auto simp add: gain_state_set_pmodrl sk_set_pmodrl)
  from detect_round_gains [OF s(2)] g2 show ?thesis
    by (simp add: sk_set_pmodrl gain_state_def set_pmodrl_def)
qed

lemma set_pacing_rate_gains:
  "gain_state (bbr_set_pacing_rate cfg c bwv gain) = gain_state c"
  by (simp add: bbr_set_pacing_rate_def Let_def gain_state_def bbr_init_pacing_rate_from_rtt_def
      split: prod.splits option.splits)

lemma set_cwnd_done_gains:
  "gain_state (bbr_set_cwnd_done c w) = gain_state c
   \<and> (mode (ca c) = BBR_PROBE_RTT \<longrightarrow> snd_cwnd (sk (bbr_set_cwnd_done c w)) \<le> bbr_cwnd_min_target)"
  by (simp add: bbr_set_cwnd_done_def Let_def gain_state_def)

lemma set_cwnd_to_recover_or_restore_gains:
  "gain_state (snd (snd (bbr_set_cwnd_to_recover_or_restore c rs acked))) = gain_state c"
  by (cases "pmodrl (ca c)")
    (simp_all add: bbr_set_cwnd_to_recover_or_restore_def Let_def gain_state_def
      split: prod.splits)

lemma set_cwnd_gains:
  assumes "bbr_set_cwnd k c rs acked bwv gain = Inr c'"
  shows "gain_state c' = gain_state c
         \<and> (mode (ca c) = BBR_PROBE_RTT \<longrightarrow> snd_cwnd (sk c') \<le> bbr_cwnd_min_target)"
proof -
  obtain b cwnd c1 where r: "bbr_set_cwnd_to_recover_or_restore c rs acked = (b, cwnd, c1)"
    by (cases "bbr_set_cwnd_to_recover_or_restore c rs acked") auto
  with set_cwnd_to_recover_or_restore_gains [of c rs acked]
  have f1: "gain_state c1 = gain_state c" by simp
  from assms r have "\<exists>c0 w. (c0 = c \<or> c0 = c1) \<and> c' = bbr_set_cwnd_done c0 w"
    by (auto simp add: bbr_set_cwnd_def Let_def bindE_Inr split: if_splits bool.splits)
  then obtain c0 w where c0: "c0 = c \<or> c0 = c1" "c' = bbr_set_cwnd_done c0 w" by blast
  from c0(1) f1 have g0: "gain_state c0 = gain_state c" by auto
  then have m0: "mode (ca c0) = mode (ca c)" by (simp add: gain_state_def)
  from set_cwnd_done_gains [of c0 w] g0 m0 c0(2) show ?thesis by simp
qed

lemma bbr_main_log_gains:
  assumes "bbr_main_log cfg k c rs = Inr c'"
  shows "gain_state c' = gain_state c \<and> sk c' = sk c"
proof (cases "pmodrl (ca c)")
  case None
  with assms show ?thesis by (simp add: bbr_main_log_def)
next
  case (Some p)
  have z: "\<exists>q. y = set_pmodrl c q"
    if "(if b then reset_pmodrl cfg k x v w else Inr x) = Inr y" "\<exists>q. x = set_pmodrl c q"
    for b x y v w
  proof (cases b)
    case False
    with that show ?thesis by auto
  next
    case True
    with that(1) have "reset_pmodrl cfg k x v w = Inr y" by simp
    from reset_pmodrl_zeroes [OF this] obtain p' where "y = set_pmodrl x p'" by blast
    with that(2) show ?thesis by (auto simp add: set_pmodrl_def)
  qed
  let ?c1 = "set_pmodrl c (store_history c p)"
  from assms Some obtain c2 c3 b1 b2 b3 where s:
    "(if b1 then reset_pmodrl cfg k ?c1 5 6 else Inr ?c1) = Inr c2"
    "(if b2 then reset_pmodrl cfg k c2 7 8 else Inr c2) = Inr c3"
    "(if b3 then reset_pmodrl cfg k c3 9 10 else Inr c3) = Inr c'"
    by (auto simp add: bbr_main_log_def Let_def bindE_Inr)
  have "\<exists>q. ?c1 = set_pmodrl c q" by blast
  from z [OF s(1) this] have "\<exists>q. c2 = set_pmodrl c q" .
  from z [OF s(2) this] have "\<exists>q. c3 = set_pmodrl c q" .
  from z [OF s(3) this] obtain q where "c' = set_pmodrl c q" by blast
  then show ?thesis by (simp add: gain_state_set_pmodrl sk_set_pmodrl)
qed

text \<open>
  C8. Whenever \<^verbatim>\<open>bbr_main\<close> completes and leaves the state machine in PROBE_RTT, the
  congestion window is at most \<^verbatim>\<open>bbr_cwnd_min_target\<close>, which is 4, and the pacing gain and
  the cwnd gain are both \<^verbatim>\<open>BBR_UNIT\<close>, 256, the fixed-point 1.0: \<^verbatim>\<open>bbr_update_gains\<close> ends
  the model update, the detector after it changes the mode only to PROBE_BW and leaves the
  gains alone, and \<^verbatim>\<open>bbr_set_cwnd\<close> ends by capping the window in PROBE_RTT.
\<close>

theorem C8_probe_rtt_caps_cwnd_and_gains:
  assumes "bbr_main cfg k c rs = Some (Inr c')" and "mode (ca c') = BBR_PROBE_RTT"
  shows "snd_cwnd (sk c') \<le> bbr_cwnd_min_target \<and> bbr_cwnd_min_target = 4
         \<and> pacing_gain (ca c') = ucast BBR_UNIT \<and> cwnd_gain (ca c') = ucast BBR_UNIT
         \<and> (ucast BBR_UNIT :: 10 word) = 256"
proof -
  from assms(1) obtain c1 c2 c4 where s:
    "bbr_update_model k c rs = Inr c1"
    "bbr_main_detector cfg k c1 rs = Some (Inr c2)"
    "bbr_set_cwnd k (bbr_set_pacing_rate cfg c2 (bbr_bw c2) (ucast (pacing_gain (ca c2)))) rs
       (rs_acked_sacked rs) (bbr_bw c2)
       (ucast (cwnd_gain (ca (bbr_set_pacing_rate cfg c2 (bbr_bw c2)
                                 (ucast (pacing_gain (ca c2))))))) = Inr c4"
    "bbr_main_log cfg k c4 rs = Inr c'"
    unfolding bbr_main_def Let_def
    by (auto simp add: bindE_Inr split: sum.splits option.splits)
  let ?c3 = "bbr_set_pacing_rate cfg c2 (bbr_bw c2) (ucast (pacing_gain (ca c2)))"
  note l = bbr_main_log_gains [OF s(4)]
  note w = set_cwnd_gains [OF s(3)]
  note d = bbr_main_detector_gains [OF s(2)]
  have g3: "gain_state ?c3 = gain_state c2" by (rule set_pacing_rate_gains)
  from l w g3 have g: "gain_state c' = gain_state c2" by simp
  with assms(2) have m2: "mode (ca c2) = BBR_PROBE_RTT" by (simp add: gain_state_def)
  with d have m1: "mode (ca c1) = BBR_PROBE_RTT" by auto
  from update_model_gains [OF s(1) m1] d g
  have gains: "pacing_gain (ca c') = ucast BBR_UNIT \<and> cwnd_gain (ca c') = ucast BBR_UNIT"
    by (simp add: gain_state_def)
  from m2 g3 have "mode (ca ?c3) = BBR_PROBE_RTT" by (simp add: gain_state_def)
  with w l have "snd_cwnd (sk c') \<le> bbr_cwnd_min_target" by simp
  with gains show ?thesis
    by (simp add: bbr_cwnd_min_target_def BBR_UNIT_def BBR_SCALE_def)
qed

theorem C8_probe_rtt_caps_cwnd_and_gains_witness:
  "bbr_main default_params example_kernel probe_rtt_conn example_sample
     = Some (Inr probe_rtt_result)
   \<and> snd_cwnd (sk probe_rtt_conn) = 40 \<and> mode (ca probe_rtt_result) = BBR_PROBE_RTT
   \<and> snd_cwnd (sk probe_rtt_result) \<le> 4
   \<and> pacing_gain (ca probe_rtt_result) = 256 \<and> cwnd_gain (ca probe_rtt_result) = 256"
proof -
  have run: "bbr_main default_params example_kernel probe_rtt_conn example_sample
               = Some (Inr probe_rtt_result)"
    by code_simp
  have m: "mode (ca probe_rtt_result) = BBR_PROBE_RTT"
    "snd_cwnd (sk probe_rtt_conn) = 40"
    by (simp_all add: probe_rtt_result_def probe_rtt_conn_def)
  from C8_probe_rtt_caps_cwnd_and_gains [OF run m(1)] run m show ?thesis by simp
qed

end
